theory Spec2Isabelle
  imports Main "HOL-Library.Word" "HOL-Library.Monad_Syntax"
begin

unbundle bit_operations_syntax

section \<open>Machine integers and the bit-field macros\<close>

type_synonym u8 = "8 word"
type_synonym u16 = "16 word"
type_synonym u32 = "32 word"
type_synonym u64 = "64 word"

text \<open>
  Modelled from the spec: the macros \<open>BITS\<close>, \<open>BITS_SHIFT\<close> and \<open>BIT_SHIFT\<close> come from
  the header \<open>bits.h\<close>, which is not among the sources at hand. The spec writes \<open>bits[h:l]\<close> for the field
  of bits \<open>l..h\<close> and \<open>bit n\<close> for a single bit. \<open>BITS\<close> keeps the field in place,
  \<open>BITS_SHIFT\<close> moves it down to bit 0, \<open>BIT_SHIFT\<close> yields bit \<open>n\<close> as 0 or 1.
  All three work on 64-bit operands here.
\<close>

definition BITS :: "u64 \<Rightarrow> nat \<Rightarrow> nat \<Rightarrow> u64" where
  "BITS x high low = x AND (mask (high + 1) AND NOT (mask low))"

definition BITS_SHIFT :: "u64 \<Rightarrow> nat \<Rightarrow> nat \<Rightarrow> u64" where
  "BITS_SHIFT x high low = drop_bit low x AND mask (high - low + 1)"

definition BIT_SHIFT :: "u64 \<Rightarrow> nat \<Rightarrow> u64" where
  "BIT_SHIFT x b = drop_bit b x AND 1"

text \<open>Assigning an integer to a C++ \<open>bool\<close>: nonzero is true.\<close>

definition to_bool :: "u64 \<Rightarrow> bool" where
  "to_bool x = (x \<noteq> 0)"

section \<open>Status codes\<close>

text \<open>
  \<open>status_t\<close> with the codes this file returns (\<open>magenta/errors.h\<close> is not among the sources at hand;
  the code only ever compares a status with \<open>NO_ERROR\<close>).
\<close>

datatype status = NO_ERROR | ERR_INTERNAL | ERR_NOT_SUPPORTED | ERR_NO_MEMORY
  | ERR_INVALID_ARGS | ERR_BAD_STATE

section \<open>VMCS fields\<close>

text \<open>
  The four enum classes of VMCS field encodings, one per access width. Their enumerators
  are the ones this file uses; the numeric encodings (in \<open>hypervisor_priv.h\<close>, not at hand) are never inspected by the code.
\<close>

datatype VmcsField16 = VPID | HOST_ES_SELECTOR | HOST_CS_SELECTOR | HOST_SS_SELECTOR
  | HOST_DS_SELECTOR | HOST_FS_SELECTOR | HOST_GS_SELECTOR | HOST_TR_SELECTOR

datatype VmcsField32 = PINBASED_CTLS | PROCBASED_CTLS | EXCEPTION_BITMAP
  | PAGEFAULT_ERRORCODE_MASK | PAGEFAULT_ERRORCODE_MATCH | EXIT_CTLS
  | EXIT_MSR_STORE_COUNT | EXIT_MSR_LOAD_COUNT | ENTRY_CTLS | ENTRY_MSR_LOAD_COUNT
  | PROCBASED_CTLS2 | VM_INSTRUCTION_ERROR | EXIT_REASON | INTERRUPTION_INFORMATION
  | INTERRUPTION_ERROR_CODE | INSTRUCTION_LENGTH | INSTRUCTION_INFORMATION
  | HOST_IA32_SYSENTER_CS | GUEST_ES_ACCESS_RIGHTS | GUEST_CS_ACCESS_RIGHTS
  | GUEST_SS_ACCESS_RIGHTS | GUEST_DS_ACCESS_RIGHTS | GUEST_FS_ACCESS_RIGHTS
  | GUEST_GS_ACCESS_RIGHTS | GUEST_LDTR_ACCESS_RIGHTS | GUEST_TR_ACCESS_RIGHTS
  | GUEST_GDTR_LIMIT | GUEST_IDTR_LIMIT | GUEST_INTERRUPTIBILITY_STATE
  | GUEST_ACTIVITY_STATE | GUEST_IA32_SYSENTER_CS

datatype VmcsField64 = MSR_BITMAPS_ADDRESS | EXIT_MSR_STORE_ADDRESS | EXIT_MSR_LOAD_ADDRESS
  | ENTRY_MSR_LOAD_ADDRESS | EPT_POINTER | GUEST_PHYSICAL_ADDRESS | LINK_POINTER
  | GUEST_IA32_PAT | GUEST_IA32_EFER | HOST_IA32_PAT | HOST_IA32_EFER

datatype VmcsFieldXX = EXIT_QUALIFICATION | GUEST_LINEAR_ADDRESS | GUEST_CR0 | GUEST_CR3
  | GUEST_CR4 | GUEST_GDTR_BASE | GUEST_IDTR_BASE | GUEST_PENDING_DEBUG_EXCEPTIONS
  | GUEST_RSP | GUEST_RIP | GUEST_RFLAGS | GUEST_IA32_SYSENTER_ESP | GUEST_IA32_SYSENTER_EIP
  | HOST_CR0 | HOST_CR3 | HOST_CR4 | HOST_FS_BASE | HOST_GS_BASE | HOST_TR_BASE
  | HOST_GDTR_BASE | HOST_IDTR_BASE | HOST_IA32_SYSENTER_ESP | HOST_IA32_SYSENTER_EIP
  | HOST_RSP | HOST_RIP

text \<open>The \<open>static_cast<uint64_t>(field)\<close> of the accessors: one field identifier space.\<close>

datatype vmcs_field = F16 VmcsField16 | F32 VmcsField32 | F64 VmcsField64 | FXX VmcsFieldXX

section \<open>Constants of headers that are not at hand\<close>

text \<open>
  The macros and enumerators below are defined in headers of the repository that are not
  among the sources at hand (\<open>arch/x86/registers.h\<close>, \<open>arch/x86/descriptor.h\<close>, \<open>arch/x86/feature.h\<close>,
  \<open>hypervisor_priv.h\<close>). Their values are a parameter \<open>K\<close> of every function that uses
  one. \<open>WITH_LIB_MAGENTA\<close> is the build flag of the same name, and \<open>ExitReason_of\<close> is the
  \<open>static_cast\<close> of the 32-bit exit reason to the enum class \<open>ExitReason\<close>.
\<close>

datatype ExitReason = EXTERNAL_INTERRUPT | CPUID | IO_INSTRUCTION | WRMSR | OTHER_EXIT_REASON

record headers =
  WITH_LIB_MAGENTA :: bool
  ExitReason_of :: "u32 \<Rightarrow> ExitReason"
  X86_MSR_IA32_FEATURE_CONTROL :: u32
  X86_MSR_IA32_PAT :: u32
  X86_MSR_IA32_VMX_BASIC :: u32
  X86_MSR_IA32_VMX_PINBASED_CTLS :: u32
  X86_MSR_IA32_VMX_PROCBASED_CTLS :: u32
  X86_MSR_IA32_VMX_EXIT_CTLS :: u32
  X86_MSR_IA32_VMX_ENTRY_CTLS :: u32
  X86_MSR_IA32_VMX_MISC :: u32
  X86_MSR_IA32_VMX_CR0_FIXED0 :: u32
  X86_MSR_IA32_VMX_CR0_FIXED1 :: u32
  X86_MSR_IA32_VMX_CR4_FIXED0 :: u32
  X86_MSR_IA32_VMX_CR4_FIXED1 :: u32
  X86_MSR_IA32_VMX_PROCBASED_CTLS2 :: u32
  X86_MSR_IA32_VMX_EPT_VPID_CAP :: u32
  X86_MSR_IA32_VMX_TRUE_PINBASED_CTLS :: u32
  X86_MSR_IA32_VMX_TRUE_PROCBASED_CTLS :: u32
  X86_MSR_IA32_VMX_TRUE_EXIT_CTLS :: u32
  X86_MSR_IA32_VMX_TRUE_ENTRY_CTLS :: u32
  X86_MSR_IA32_EFER :: u32
  X86_MSR_IA32_STAR :: u32
  X86_MSR_IA32_LSTAR :: u32
  X86_MSR_IA32_FMASK :: u32
  X86_MSR_IA32_FS_BASE :: u32
  X86_MSR_IA32_GS_BASE :: u32
  X86_MSR_IA32_KERNEL_GS_BASE :: u32
  X86_MSR_IA32_FEATURE_CONTROL_LOCK :: u64
  X86_MSR_IA32_FEATURE_CONTROL_VMXON :: u64
  X86_CR0_PE :: u64
  X86_CR0_NE :: u64
  X86_CR0_PG :: u64
  X86_CR4_PAE :: u64
  X86_CR4_VMXE :: u64
  X86_FLAGS_RESERVED_ONES :: u64
  CODE_64_SELECTOR :: u16
  DATA_SELECTOR :: u16
  TSS_SELECTOR :: "u32 \<Rightarrow> u16"
  VMX_MEMORY_TYPE_WRITE_BACK :: u64
  PINBASED_CTLS_EXTINT_EXITING :: u32
  PINBASED_CTLS_NMI_EXITING :: u32
  PROCBASED_CTLS_CR3_LOAD_EXITING :: u32
  PROCBASED_CTLS_CR3_STORE_EXITING :: u32
  PROCBASED_CTLS_IO_EXITING :: u32
  PROCBASED_CTLS_MSR_BITMAPS :: u32
  PROCBASED_CTLS_PROCBASED_CTLS2 :: u32
  PROCBASED_CTLS2_EPT :: u32
  PROCBASED_CTLS2_RDTSCP :: u32
  PROCBASED_CTLS2_VPID :: u32
  PROCBASED_CTLS2_XSAVES_XRSTORS :: u32
  EXIT_CTLS_64BIT_MODE :: u32
  EXIT_CTLS_SAVE_IA32_PAT :: u32
  EXIT_CTLS_LOAD_IA32_PAT :: u32
  EXIT_CTLS_SAVE_IA32_EFER :: u32
  EXIT_CTLS_LOAD_IA32_EFER :: u32
  ENTRY_CTLS_IA32E_MODE :: u32
  ENTRY_CTLS_LOAD_IA32_PAT :: u32
  ENTRY_CTLS_LOAD_IA32_EFER :: u32
  EXCEPTION_BITMAP_ALL_EXCEPTIONS :: u32
  LINK_POINTER_INVALIDATE :: u64
  GUEST_XX_ACCESS_RIGHTS_UNUSABLE :: u32
  GUEST_XX_ACCESS_RIGHTS_TYPE_A :: u32
  GUEST_XX_ACCESS_RIGHTS_TYPE_W :: u32
  GUEST_XX_ACCESS_RIGHTS_TYPE_E :: u32
  GUEST_XX_ACCESS_RIGHTS_TYPE_CODE :: u32
  GUEST_XX_ACCESS_RIGHTS_S :: u32
  GUEST_XX_ACCESS_RIGHTS_P :: u32
  GUEST_XX_ACCESS_RIGHTS_L :: u32
  GUEST_TR_ACCESS_RIGHTS_TSS_BUSY :: u32

text \<open>
  Modelled from the spec: \<open>PAGE_SIZE\<close> (\<open>arch/defines.h\<close>, not at hand) is the 4 KiB
  page frame of the spec, and \<open>X86_CPUID_BASE\<close> (\<open>arch/x86/feature.h\<close>, not at hand) is
  CPUID leaf 0. \<open>kUartIoPort\<close> is defined in the source file itself.
\<close>

definition PAGE_SIZE :: u64 where
  "PAGE_SIZE = 4096"

definition X86_CPUID_BASE :: u32 where
  "X86_CPUID_BASE = 0"

definition kUartIoPort :: int where
  "kUartIoPort = 0x3f8"

text \<open>
  Addresses the kernel image and the per-CPU block provide: the default TSS of the CPU,
  \<open>_gdt\<close>, the read-only IDT, the exit trampoline \<open>vmx_exit_entry\<close> and the \<open>VmxState\<close>
  block of the per-CPU VMCS object.
\<close>

record kernel_layout =
  default_tss_addr :: u64
  gdt_addr :: u64
  idt_readonly_addr :: u64
  vmx_exit_entry_addr :: u64
  vmx_state_addr :: u64

section \<open>The logical processor\<close>

text \<open>
  The state of the logical processor the pinned worker runs on, as far as this file reads or
  writes it: the interrupt flag, the CPU number of the per-CPU block, the model-specific
  registers (indexed by MSR number), the control registers and the contents of the current
  VMCS. \<open>vmptrld_log\<close> records every
  executed VMPTRLD with its operand and with the interrupt state at that moment.
\<close>

record cpu =
  ints_disabled :: bool
  cpu_num :: u32
  msrs :: "u32 \<Rightarrow> u64"
  cr0 :: u64
  cr3 :: u64
  cr4 :: u64
  vmcs :: "vmcs_field \<Rightarrow> u64"
  vmptrld_log :: "(u64 \<times> bool) list"

definition read_msr :: "cpu \<Rightarrow> u32 \<Rightarrow> u64" where
  "read_msr c m = msrs c m"

definition write_msr :: "u32 \<Rightarrow> u64 \<Rightarrow> cpu \<Rightarrow> cpu" where
  "write_msr m v c = c\<lparr>msrs := (msrs c)(m := v)\<rparr>"

text \<open>
  \<open>vmread\<close> and \<open>vmwrite\<close> on the current VMCS. The source asserts that the instruction's
  failure flag is clear; the model is the instruction succeeding.
\<close>

definition vmread :: "cpu \<Rightarrow> vmcs_field \<Rightarrow> u64" where
  "vmread c field = vmcs c field"

definition vmwrite :: "vmcs_field \<Rightarrow> u64 \<Rightarrow> cpu \<Rightarrow> cpu" where
  "vmwrite field val c = c\<lparr>vmcs := (vmcs c)(field := val)\<rparr>"

text \<open>The four overloads of \<open>vmcs_read\<close> and of \<open>vmcs_write\<close>, with their casts.\<close>

definition vmcs_read16 :: "cpu \<Rightarrow> VmcsField16 \<Rightarrow> u16" where
  "vmcs_read16 c field = ucast (vmread c (F16 field))"

definition vmcs_read32 :: "cpu \<Rightarrow> VmcsField32 \<Rightarrow> u32" where
  "vmcs_read32 c field = ucast (vmread c (F32 field))"

definition vmcs_read64 :: "cpu \<Rightarrow> VmcsField64 \<Rightarrow> u64" where
  "vmcs_read64 c field = vmread c (F64 field)"

definition vmcs_readXX :: "cpu \<Rightarrow> VmcsFieldXX \<Rightarrow> u64" where
  "vmcs_readXX c field = vmread c (FXX field)"

definition vmcs_write16 :: "VmcsField16 \<Rightarrow> u16 \<Rightarrow> cpu \<Rightarrow> cpu" where
  "vmcs_write16 field val c = vmwrite (F16 field) (ucast val) c"

definition vmcs_write32 :: "VmcsField32 \<Rightarrow> u32 \<Rightarrow> cpu \<Rightarrow> cpu" where
  "vmcs_write32 field val c = vmwrite (F32 field) (ucast val) c"

definition vmcs_write64 :: "VmcsField64 \<Rightarrow> u64 \<Rightarrow> cpu \<Rightarrow> cpu" where
  "vmcs_write64 field val c = vmwrite (F64 field) val c"

definition vmcs_writeXX :: "VmcsFieldXX \<Rightarrow> u64 \<Rightarrow> cpu \<Rightarrow> cpu" where
  "vmcs_writeXX field val c = vmwrite (FXX field) val c"

section \<open>Guest registers and exit information\<close>

text \<open>
  \<open>GuestState\<close> (\<open>arch/x86/hypervisor_state.h\<close>, not at hand) holds the guest's
  general-purpose registers; the four below are the ones this file touches.
\<close>

record GuestState =
  rax :: u64
  rbx :: u64
  rcx :: u64
  rdx :: u64

record VmxState =
  guest_state :: GuestState

record ExitInfo =
  exit_reason :: ExitReason
  exit_qualification :: u64
  interruption_information :: u32
  interruption_error_code :: u32
  instruction_length :: u32
  instruction_information :: u32
  guest_physical_address :: u64
  guest_linear_address :: u64
  guest_interruptibility_state :: u32
  guest_rip :: u64

section \<open>Instructions and collaborators outside the source file\<close>

text \<open>
  What the hardware and the external collaborators answer is a parameter \<open>hw\<close>:
  \<^item> \<open>vmxon_err\<close>, \<open>vmxoff_err\<close>, \<open>vmptrld_err\<close>, \<open>vmclear_err\<close>: the failure flag (CF or ZF)
    of the instruction, as \<open>VMX_ERR_CHECK\<close> reads it;
  \<^item> \<open>cpuid\<close>: the four output registers of the host's CPUID for a leaf;
  \<^item> \<open>vmx_enter\<close>: the assembly trampoline. Modelled from the spec: the trampoline is not
    at hand; it gets the \<open>VmxState\<close> block and the resume flag, performs VMLAUNCH or
    VMRESUME on the current VMCS, and comes back at the VM exit with the guest registers
    saved into the block, the exit information in the VMCS and interrupts still disabled;
  \<^item> \<open>fifo_Write\<close>: \<open>FifoDispatcher::Write\<close> of the serial FIFO (not at hand), on an
    abstract FIFO state \<open>'f\<close>, given the bytes to write.
\<close>

record 'f hardware =
  vmxon_err :: "u64 \<Rightarrow> bool"
  vmxoff_err :: bool
  vmptrld_err :: "u64 \<Rightarrow> bool"
  vmclear_err :: "u64 \<Rightarrow> bool"
  cpuid :: "u32 \<Rightarrow> u32 \<times> u32 \<times> u32 \<times> u32"
  vmx_enter :: "VmxState \<Rightarrow> (vmcs_field \<Rightarrow> u64) \<Rightarrow> bool
                  \<Rightarrow> status \<times> VmxState \<times> (vmcs_field \<Rightarrow> u64)"
  fifo_Write :: "'f \<Rightarrow> u8 list \<Rightarrow> status \<times> 'f"

definition vmxon :: "'f hardware \<Rightarrow> u64 \<Rightarrow> status" where
  "vmxon hw pa = (if vmxon_err hw pa then ERR_INTERNAL else NO_ERROR)"

definition vmxoff :: "'f hardware \<Rightarrow> status" where
  "vmxoff hw = (if vmxoff_err hw then ERR_INTERNAL else NO_ERROR)"

definition vmptrld :: "'f hardware \<Rightarrow> u64 \<Rightarrow> cpu \<Rightarrow> status \<times> cpu" where
  "vmptrld hw pa c =
     (if vmptrld_err hw pa then ERR_INTERNAL else NO_ERROR,
      c\<lparr>vmptrld_log := vmptrld_log c @ [(pa, ints_disabled c)]\<rparr>)"

definition vmclear :: "'f hardware \<Rightarrow> u64 \<Rightarrow> status" where
  "vmclear hw pa = (if vmclear_err hw pa then ERR_INTERNAL else NO_ERROR)"

text \<open>
  Modelled from the spec: the interrupt and control-register primitives
  (\<open>arch/ops.h\<close>, \<open>arch/x86.h\<close>, not at hand) read, disable and enable the interrupt
  flag and read and write the control registers.
\<close>

definition arch_ints_disabled :: "cpu \<Rightarrow> bool" where
  "arch_ints_disabled c = ints_disabled c"

definition arch_disable_ints :: "cpu \<Rightarrow> cpu" where
  "arch_disable_ints c = c\<lparr>ints_disabled := True\<rparr>"

definition arch_enable_ints :: "cpu \<Rightarrow> cpu" where
  "arch_enable_ints c = c\<lparr>ints_disabled := False\<rparr>"

definition x86_get_cr0 :: "cpu \<Rightarrow> u64" where
  "x86_get_cr0 c = cr0 c"

definition x86_get_cr3 :: "cpu \<Rightarrow> u64" where
  "x86_get_cr3 c = cr3 c"

definition x86_get_cr4 :: "cpu \<Rightarrow> u64" where
  "x86_get_cr4 c = cr4 c"

definition x86_set_cr4 :: "u64 \<Rightarrow> cpu \<Rightarrow> cpu" where
  "x86_set_cr4 v c = c\<lparr>cr4 := v\<rparr>"

text \<open>
  A function that contains a \<open>DEBUG_ASSERT\<close> or \<open>ASSERT\<close> returns an option: \<open>None\<close> is
  the failed assertion (the kernel panics), \<open>Some\<close> is the normal return.
\<close>

section \<open>The I/O exit qualification\<close>

record IoInfo =
  bytes :: u8
  input :: bool
  string :: bool
  repeat :: bool
  port :: u16

definition IoInfo_ctor :: "u64 \<Rightarrow> IoInfo" where
  "IoInfo_ctor qualification =
     \<lparr> bytes = ucast (BITS qualification 2 0 + 1),
       input = to_bool (BIT_SHIFT qualification 3),
       string = to_bool (BIT_SHIFT qualification 4),
       repeat = to_bool (BIT_SHIFT qualification 5),
       port = ucast (BITS_SHIFT qualification 31 16) \<rparr>"

section \<open>The VMCS control helper\<close>

definition set_vmcs_control ::
  "VmcsField32 \<Rightarrow> u64 \<Rightarrow> u64 \<Rightarrow> u32 \<Rightarrow> u32 \<Rightarrow> cpu \<Rightarrow> status \<times> cpu" where
  "set_vmcs_control controls true_msr old_msr set_m clear_m c =
     (let allowed_0 = (ucast (BITS true_msr 31 0) :: u32);
          allowed_1 = (ucast (BITS_SHIFT true_msr 63 32) :: u32)
      in if allowed_1 AND set_m \<noteq> set_m then (ERR_NOT_SUPPORTED, c)
         else if NOT allowed_0 AND clear_m \<noteq> clear_m then (ERR_NOT_SUPPORTED, c)
         else if set_m AND clear_m \<noteq> 0 then (ERR_INVALID_ARGS, c)
         else
           let flexible = allowed_0 XOR allowed_1;
               unknown = flexible AND NOT (set_m OR clear_m);
               defaults = (ucast ((ucast unknown :: u64) AND BITS old_msr 31 0) :: u32)
           in (NO_ERROR, vmcs_write32 controls (allowed_0 OR defaults OR set_m) c))"

section \<open>Capability descriptors\<close>

record VmxInfo =
  revision_id :: u32
  region_size :: u16
  write_back :: bool
  io_exit_info :: bool
  vmx_controls :: bool

record MiscInfo =
  wait_for_sipi :: bool
  msr_list_limit :: u32

record EptInfo =
  page_walk_4 :: bool
  write_back :: bool
  pde_2mb_page :: bool
  pdpe_1gb_page :: bool
  ept_flags :: bool
  exit_info :: bool
  invept :: bool

definition VmxInfo_ctor :: "headers \<Rightarrow> cpu \<Rightarrow> VmxInfo" where
  "VmxInfo_ctor K c =
     (let basic_info = read_msr c (X86_MSR_IA32_VMX_BASIC K)
      in \<lparr> revision_id = ucast (BITS basic_info 30 0),
           region_size = ucast (BITS_SHIFT basic_info 44 32),
           write_back = (BITS_SHIFT basic_info 53 50 = VMX_MEMORY_TYPE_WRITE_BACK K),
           io_exit_info = to_bool (BIT_SHIFT basic_info 54),
           vmx_controls = to_bool (BIT_SHIFT basic_info 55) \<rparr>)"

definition MiscInfo_ctor :: "headers \<Rightarrow> cpu \<Rightarrow> MiscInfo" where
  "MiscInfo_ctor K c =
     (let misc_info = read_msr c (X86_MSR_IA32_VMX_MISC K)
      in \<lparr> wait_for_sipi = to_bool (BIT_SHIFT misc_info 8),
           msr_list_limit = ucast (BITS_SHIFT misc_info 27 25 + 1) * 512 \<rparr>)"

definition EptInfo_ctor :: "headers \<Rightarrow> cpu \<Rightarrow> EptInfo" where
  "EptInfo_ctor K c =
     (let ept_info = read_msr c (X86_MSR_IA32_VMX_EPT_VPID_CAP K)
      in \<lparr> page_walk_4 = to_bool (BIT_SHIFT ept_info 6),
           write_back = to_bool (BIT_SHIFT ept_info 14),
           pde_2mb_page = to_bool (BIT_SHIFT ept_info 16),
           pdpe_1gb_page = to_bool (BIT_SHIFT ept_info 17),
           ept_flags = to_bool (BIT_SHIFT ept_info 21),
           exit_info = to_bool (BIT_SHIFT ept_info 22),
           invept = (to_bool (BIT_SHIFT ept_info 20) \<and> to_bool (BIT_SHIFT ept_info 25)
                     \<and> to_bool (BIT_SHIFT ept_info 26)) \<rparr>)"

definition ExitInfo_ctor :: "headers \<Rightarrow> cpu \<Rightarrow> ExitInfo" where
  "ExitInfo_ctor K c =
     \<lparr> exit_reason = ExitReason_of K (vmcs_read32 c EXIT_REASON),
       exit_qualification = vmcs_readXX c EXIT_QUALIFICATION,
       interruption_information = vmcs_read32 c INTERRUPTION_INFORMATION,
       interruption_error_code = vmcs_read32 c INTERRUPTION_ERROR_CODE,
       instruction_length = vmcs_read32 c INSTRUCTION_LENGTH,
       instruction_information = vmcs_read32 c INSTRUCTION_INFORMATION,
       guest_physical_address = vmcs_read64 c GUEST_PHYSICAL_ADDRESS,
       guest_linear_address = vmcs_readXX c GUEST_LINEAR_ADDRESS,
       guest_interruptibility_state = vmcs_read32 c GUEST_INTERRUPTIBILITY_STATE,
       guest_rip = vmcs_readXX c GUEST_RIP \<rparr>"

section \<open>VMX pages and the per-CPU objects\<close>

text \<open>
  A \<open>VmxPage\<close> owns one page frame: \<open>pa\<close> is the member \<open>pa_\<close> (0 while nothing is
  allocated) and \<open>mem\<close> is the content of the frame as \<open>VirtualAddress<T>()\<close> views it, an
  array of \<open>T\<close>. Modelled from the spec: \<open>IsAllocated\<close> is declared in
  \<open>arch/x86/hypervisor.h\<close>, not at hand; the page is allocated when \<open>pa\<close> is non-null.
\<close>

record 'a VmxPage =
  pa :: u64
  mem :: "nat \<Rightarrow> 'a"

definition IsAllocated :: "'a VmxPage \<Rightarrow> bool" where
  "IsAllocated pg = (pa pg \<noteq> 0)"

definition PhysicalAddress :: "'a VmxPage \<Rightarrow> u64 option" where
  "PhysicalAddress pg = (if pa pg \<noteq> 0 then Some (pa pg) else None)"

definition VirtualAddress :: "'a VmxPage \<Rightarrow> (nat \<Rightarrow> 'a) option" where
  "VirtualAddress pg = (if pa pg \<noteq> 0 then Some (mem pg) else None)"

record MsrListEntry =
  entry_msr :: u32
  entry_reserved :: u32
  entry_value :: u64

text \<open>
  The classes \<open>PerCpu\<close>, \<open>VmxonPerCpu\<close> and \<open>VmcsPerCpu\<close>; the members \<open>page_\<close>, \<open>is_on_\<close>,
  \<open>do_resume_\<close> and so on are written without the trailing underscore.
\<close>

record PerCpu =
  page :: "u32 VmxPage"

record VmxonPerCpu = PerCpu +
  is_on :: bool

record VmcsPerCpu = PerCpu +
  msr_bitmaps_page :: "u8 VmxPage"
  host_msr_page :: "MsrListEntry VmxPage"
  guest_msr_page :: "MsrListEntry VmxPage"
  vmx_state :: VmxState
  do_resume :: bool

section \<open>Host enablement\<close>

definition cr_is_invalid :: "cpu \<Rightarrow> u64 \<Rightarrow> u32 \<Rightarrow> u32 \<Rightarrow> bool" where
  "cr_is_invalid c cr_value fixed0_msr fixed1_msr =
     (let fixed0 = read_msr c fixed0_msr;
          fixed1 = read_msr c fixed1_msr
      in NOT (cr_value OR NOT fixed0) \<noteq> 0 \<or> NOT (NOT cr_value OR fixed1) \<noteq> 0)"

definition VmxOn :: "'f hardware \<Rightarrow> VmxonPerCpu \<Rightarrow> (status \<times> VmxonPerCpu) option" where
  "VmxOn hw per_cpu =
     do {
       a \<leftarrow> PhysicalAddress (page per_cpu);
       let status = vmxon hw a;
       Some (status, per_cpu\<lparr>is_on := (status = NO_ERROR)\<rparr>)
     }"

definition VmxOff :: "'f hardware \<Rightarrow> VmxonPerCpu \<Rightarrow> status" where
  "VmxOff hw per_cpu = (if is_on per_cpu then vmxoff hw else NO_ERROR)"

text \<open>
  \<open>vmx_enable\<close>, run on the CPU being enabled, in two definitions. \<open>vmx_enable_cr_vmxon\<close>
  is the part from the comment ``Check control registers are in a VMX-friendly state'' to
  the end: the CR0 and CR4 checks, setting \<open>CR4.VMXE\<close> and VMXON. \<open>vmx_enable\<close> is the
  function from its start; the block that handles the feature-control MSR either returns
  early (\<open>Inl\<close>) or falls through with the processor state it leaves (\<open>Inr\<close>).
\<close>

definition vmx_enable_cr_vmxon ::
  "headers \<Rightarrow> 'f hardware \<Rightarrow> cpu \<Rightarrow> VmxonPerCpu \<Rightarrow> (status \<times> cpu \<times> VmxonPerCpu) option" where
  "vmx_enable_cr_vmxon K hw c per_cpu =
     (let cr0_value = x86_get_cr0 c in
      if cr_is_invalid c cr0_value (X86_MSR_IA32_VMX_CR0_FIXED0 K)
           (X86_MSR_IA32_VMX_CR0_FIXED1 K)
      then Some (ERR_BAD_STATE, c, per_cpu)
      else
        let cr4_value = x86_get_cr4 c OR X86_CR4_VMXE K in
        if cr_is_invalid c cr4_value (X86_MSR_IA32_VMX_CR4_FIXED0 K)
             (X86_MSR_IA32_VMX_CR4_FIXED1 K)
        then Some (ERR_BAD_STATE, c, per_cpu)
        else
          let c = x86_set_cr4 cr4_value c in
          do {
            (status, per_cpu) \<leftarrow> VmxOn hw per_cpu;
            Some (status, c, per_cpu)
          })"

definition vmx_enable ::
  "headers \<Rightarrow> 'f hardware \<Rightarrow> cpu \<Rightarrow> VmxonPerCpu \<Rightarrow> (status \<times> cpu \<times> VmxonPerCpu) option" where
  "vmx_enable K hw c per_cpu =
     (let vmx_info = VmxInfo_ctor K c in
      if \<not> io_exit_info vmx_info then Some (ERR_NOT_SUPPORTED, c, per_cpu)
      else if \<not> vmx_controls vmx_info then Some (ERR_NOT_SUPPORTED, c, per_cpu)
      else
        let ept_info = EptInfo_ctor K c in
        if \<not> page_walk_4 ept_info then Some (ERR_NOT_SUPPORTED, c, per_cpu)
        else if \<not> EptInfo.write_back ept_info then Some (ERR_NOT_SUPPORTED, c, per_cpu)
        else if \<not> ept_flags ept_info then Some (ERR_NOT_SUPPORTED, c, per_cpu)
        else if \<not> invept ept_info then Some (ERR_NOT_SUPPORTED, c, per_cpu)
        else
          let misc_info = MiscInfo_ctor K c in
          if \<not> wait_for_sipi misc_info then Some (ERR_NOT_SUPPORTED, c, per_cpu)
          else
            let feature_control = read_msr c (X86_MSR_IA32_FEATURE_CONTROL K) in
            case (if feature_control AND X86_MSR_IA32_FEATURE_CONTROL_LOCK K = 0
                     \<or> feature_control AND X86_MSR_IA32_FEATURE_CONTROL_VMXON K = 0
                  then
                    if feature_control AND X86_MSR_IA32_FEATURE_CONTROL_LOCK K \<noteq> 0
                       \<and> feature_control AND X86_MSR_IA32_FEATURE_CONTROL_VMXON K = 0
                    then Inl ERR_NOT_SUPPORTED
                    else
                      let feature_control =
                            feature_control OR X86_MSR_IA32_FEATURE_CONTROL_LOCK K;
                          feature_control =
                            feature_control OR X86_MSR_IA32_FEATURE_CONTROL_VMXON K
                      in Inr (write_msr (X86_MSR_IA32_FEATURE_CONTROL K) feature_control c)
                  else Inr c) of
              Inl status \<Rightarrow> Some (status, c, per_cpu)
            | Inr c \<Rightarrow> vmx_enable_cr_vmxon K hw c per_cpu)"

definition vmx_disable ::
  "headers \<Rightarrow> 'f hardware \<Rightarrow> cpu \<Rightarrow> VmxonPerCpu \<Rightarrow> status \<times> cpu" where
  "vmx_disable K hw c per_cpu =
     (let status = VmxOff hw per_cpu in
      if status \<noteq> NO_ERROR then (status, c)
      else (NO_ERROR, x86_set_cr4 (x86_get_cr4 c AND NOT (X86_CR4_VMXE K)) c))"

section \<open>The scoped VMCS load\<close>

definition AutoVmcsLoad_ctor :: "'f hardware \<Rightarrow> 'a VmxPage \<Rightarrow> cpu \<Rightarrow> cpu option" where
  "AutoVmcsLoad_ctor hw pg c =
     (if arch_ints_disabled c then None
      else
        let c = arch_disable_ints c in
        do {
          a \<leftarrow> PhysicalAddress pg;
          let (status, c) = vmptrld hw a c;
          if status = NO_ERROR then Some c else None
        })"

definition AutoVmcsLoad_dtor :: "cpu \<Rightarrow> cpu option" where
  "AutoVmcsLoad_dtor c = (if arch_ints_disabled c then Some (arch_enable_ints c) else None)"

text \<open>
  A C++ scope that declares \<open>AutoVmcsLoad vmcs_load(&page_)\<close>: the constructor runs at the
  declaration, \<open>body\<close> is the rest of the scope, and the destructor runs on every return
  path of the scope, after the return value \<open>r\<close> has been computed.
\<close>

definition AutoVmcsLoad ::
  "'f hardware \<Rightarrow> 'a VmxPage \<Rightarrow> (cpu \<Rightarrow> ('r \<times> cpu) option) \<Rightarrow> cpu \<Rightarrow> ('r \<times> cpu) option" where
  "AutoVmcsLoad hw pg body c =
     do {
       c \<leftarrow> AutoVmcsLoad_ctor hw pg c;
       (r, c) \<leftarrow> body c;
       c \<leftarrow> AutoVmcsLoad_dtor c;
       Some (r, c)
     }"

section \<open>The VMCS builder\<close>

definition Clear :: "'f hardware \<Rightarrow> 'z PerCpu_scheme \<Rightarrow> status option" where
  "Clear hw per_cpu =
     (if IsAllocated (page per_cpu)
      then do { a \<leftarrow> PhysicalAddress (page per_cpu); Some (vmclear hw a) }
      else Some NO_ERROR)"

text \<open>
  Modelled from the spec: \<open>IS_PAGE_ALIGNED\<close> (\<open>arch/defines.h\<close>, not at hand) holds of
  an address that is a multiple of the page size.
\<close>

definition IS_PAGE_ALIGNED :: "u64 \<Rightarrow> bool" where
  "IS_PAGE_ALIGNED a = (a AND (PAGE_SIZE - 1) = 0)"

definition ept_pointer :: "headers \<Rightarrow> u64 \<Rightarrow> u64 option" where
  "ept_pointer K pml4_address =
     (if \<not> IS_PAGE_ALIGNED pml4_address then None
      else Some (pml4_address OR push_bit 0 (VMX_MEMORY_TYPE_WRITE_BACK K)
                   OR push_bit 3 3 OR push_bit 6 1))"

text \<open>
  \<open>ignore_msr\<close>: \<open>off\<close> is the distance of the moving pointer \<open>msr_bitmaps\<close> from the start
  of the page.
\<close>

definition ignore_msr :: "u8 VmxPage \<Rightarrow> u32 \<Rightarrow> u8 VmxPage option" where
  "ignore_msr pg msr_n =
     do {
       msr_bitmaps \<leftarrow> VirtualAddress pg;
       let off = (if msr_n \<ge> 0xc0000000 then 2 ^ 10 else 0 :: nat);
       let msr_low = (ucast (msr_n AND 0x1fff) :: u16);
       let msr_byte = msr_low div 8;
       let msr_bit = (ucast (msr_low mod 8) :: u8);
       let i = off + unat msr_byte;
       let msr_bitmaps = msr_bitmaps(i := msr_bitmaps i AND NOT (push_bit (unat msr_bit) 1));
       let off = off + 2 * 2 ^ 10;
       let i = off + unat msr_byte;
       let msr_bitmaps = msr_bitmaps(i := msr_bitmaps i AND NOT (push_bit (unat msr_bit) 1));
       Some (pg\<lparr>mem := msr_bitmaps\<rparr>)
     }"

text \<open>\<open>edit_msr_list\<close>: \<open>sizeof(MsrListEntry)\<close> is 16, the struct being packed.\<close>

definition edit_msr_list ::
  "MsrListEntry VmxPage \<Rightarrow> u32 \<Rightarrow> u32 \<Rightarrow> u64 \<Rightarrow> MsrListEntry VmxPage option" where
  "edit_msr_list pg index msr_n v =
     (if \<not> unat index < 512 div 16 then None
      else
        do {
          entries \<leftarrow> VirtualAddress pg;
          let entry = entries (unat index);
          let entry = entry\<lparr>entry_msr := msr_n\<rparr>;
          let entry = entry\<lparr>entry_value := v\<rparr>;
          Some (pg\<lparr>mem := entries(unat index := entry)\<rparr>)
        })"

text \<open>\<open>VmcsPerCpu::Setup\<close>, first part: the five control fields.\<close>

definition Setup_controls :: "headers \<Rightarrow> cpu \<Rightarrow> status \<times> cpu" where
  "Setup_controls K c =
     (let (status, c) =
            set_vmcs_control PROCBASED_CTLS2
              (read_msr c (X86_MSR_IA32_VMX_PROCBASED_CTLS2 K))
              0
              (PROCBASED_CTLS2_EPT K OR PROCBASED_CTLS2_RDTSCP K OR PROCBASED_CTLS2_VPID K
                 OR PROCBASED_CTLS2_XSAVES_XRSTORS K)
              0 c
      in if status \<noteq> NO_ERROR then (status, c)
      else
      let (status, c) =
            set_vmcs_control PINBASED_CTLS
              (read_msr c (X86_MSR_IA32_VMX_TRUE_PINBASED_CTLS K))
              (read_msr c (X86_MSR_IA32_VMX_PINBASED_CTLS K))
              (PINBASED_CTLS_EXTINT_EXITING K OR PINBASED_CTLS_NMI_EXITING K)
              0 c
      in if status \<noteq> NO_ERROR then (status, c)
      else
      let (status, c) =
            set_vmcs_control PROCBASED_CTLS
              (read_msr c (X86_MSR_IA32_VMX_TRUE_PROCBASED_CTLS K))
              (read_msr c (X86_MSR_IA32_VMX_PROCBASED_CTLS K))
              (PROCBASED_CTLS_IO_EXITING K OR PROCBASED_CTLS_MSR_BITMAPS K
                 OR PROCBASED_CTLS_PROCBASED_CTLS2 K)
              (PROCBASED_CTLS_CR3_LOAD_EXITING K OR PROCBASED_CTLS_CR3_STORE_EXITING K) c
      in if status \<noteq> NO_ERROR then (status, c)
      else
      let (status, c) =
            set_vmcs_control EXIT_CTLS
              (read_msr c (X86_MSR_IA32_VMX_TRUE_EXIT_CTLS K))
              (read_msr c (X86_MSR_IA32_VMX_EXIT_CTLS K))
              (EXIT_CTLS_64BIT_MODE K OR EXIT_CTLS_SAVE_IA32_PAT K OR EXIT_CTLS_LOAD_IA32_PAT K
                 OR EXIT_CTLS_SAVE_IA32_EFER K OR EXIT_CTLS_LOAD_IA32_EFER K)
              0 c
      in if status \<noteq> NO_ERROR then (status, c)
      else
        set_vmcs_control ENTRY_CTLS
          (read_msr c (X86_MSR_IA32_VMX_TRUE_ENTRY_CTLS K))
          (read_msr c (X86_MSR_IA32_VMX_ENTRY_CTLS K))
          (ENTRY_CTLS_IA32E_MODE K OR ENTRY_CTLS_LOAD_IA32_PAT K OR ENTRY_CTLS_LOAD_IA32_EFER K)
          0 c)"

text \<open>Second part: exception bitmap, page-fault masks, VPID and EPT pointer.\<close>

definition Setup_execution :: "headers \<Rightarrow> u64 \<Rightarrow> cpu \<Rightarrow> cpu option" where
  "Setup_execution K pml4_address c =
     (let c = vmcs_write32 EXCEPTION_BITMAP (EXCEPTION_BITMAP_ALL_EXCEPTIONS K) c;
          c = vmcs_write32 PAGEFAULT_ERRORCODE_MASK 0 c;
          c = vmcs_write32 PAGEFAULT_ERRORCODE_MATCH 0 c;
          c = vmcs_write16 VPID (ucast (cpu_num c + 1)) c
      in do {
           eptp \<leftarrow> ept_pointer K pml4_address;
           Some (vmcs_write64 EPT_POINTER eptp c)
         })"

text \<open>Third part: the MSR bitmaps and the MSR load and store lists.\<close>

definition Setup_msr_handling ::
  "headers \<Rightarrow> cpu \<Rightarrow> VmcsPerCpu \<Rightarrow> (cpu \<times> VmcsPerCpu) option" where
  "Setup_msr_handling K c per_cpu =
     do {
       pg \<leftarrow> ignore_msr (msr_bitmaps_page per_cpu) (X86_MSR_IA32_GS_BASE K);
       pg \<leftarrow> ignore_msr pg (X86_MSR_IA32_KERNEL_GS_BASE K);
       let per_cpu = per_cpu\<lparr>msr_bitmaps_page := pg\<rparr>;
       a \<leftarrow> PhysicalAddress (msr_bitmaps_page per_cpu);
       let c = vmcs_write64 MSR_BITMAPS_ADDRESS a c;
       pg \<leftarrow> edit_msr_list (host_msr_page per_cpu) 0 (X86_MSR_IA32_STAR K)
               (read_msr c (X86_MSR_IA32_STAR K));
       pg \<leftarrow> edit_msr_list pg 1 (X86_MSR_IA32_LSTAR K) (read_msr c (X86_MSR_IA32_LSTAR K));
       pg \<leftarrow> edit_msr_list pg 2 (X86_MSR_IA32_FMASK K) (read_msr c (X86_MSR_IA32_FMASK K));
       let per_cpu = per_cpu\<lparr>host_msr_page := pg\<rparr>;
       a \<leftarrow> PhysicalAddress (host_msr_page per_cpu);
       let c = vmcs_write64 EXIT_MSR_LOAD_ADDRESS a c;
       let c = vmcs_write32 EXIT_MSR_LOAD_COUNT 4 c;
       pg \<leftarrow> edit_msr_list (guest_msr_page per_cpu) 0 (X86_MSR_IA32_KERNEL_GS_BASE K) 0;
       let per_cpu = per_cpu\<lparr>guest_msr_page := pg\<rparr>;
       a \<leftarrow> PhysicalAddress (guest_msr_page per_cpu);
       let c = vmcs_write64 EXIT_MSR_STORE_ADDRESS a c;
       let c = vmcs_write32 EXIT_MSR_STORE_COUNT 1 c;
       a \<leftarrow> PhysicalAddress (guest_msr_page per_cpu);
       let c = vmcs_write64 ENTRY_MSR_LOAD_ADDRESS a c;
       let c = vmcs_write32 ENTRY_MSR_LOAD_COUNT 1 c;
       Some (c, per_cpu)
     }"

text \<open>Fourth part: the host state area.\<close>

definition Setup_host_state :: "headers \<Rightarrow> kernel_layout \<Rightarrow> cpu \<Rightarrow> cpu" where
  "Setup_host_state K L c =
     (let c = vmcs_write64 HOST_IA32_PAT (read_msr c (X86_MSR_IA32_PAT K)) c;
          c = vmcs_write64 HOST_IA32_EFER (read_msr c (X86_MSR_IA32_EFER K)) c;
          c = vmcs_writeXX HOST_CR0 (x86_get_cr0 c) c;
          c = vmcs_writeXX HOST_CR4 (x86_get_cr4 c) c;
          c = vmcs_write16 HOST_ES_SELECTOR 0 c;
          c = vmcs_write16 HOST_CS_SELECTOR (CODE_64_SELECTOR K) c;
          c = vmcs_write16 HOST_SS_SELECTOR (DATA_SELECTOR K) c;
          c = vmcs_write16 HOST_DS_SELECTOR 0 c;
          c = vmcs_write16 HOST_FS_SELECTOR 0 c;
          c = vmcs_write16 HOST_GS_SELECTOR 0 c;
          c = vmcs_write16 HOST_TR_SELECTOR (TSS_SELECTOR K (cpu_num c)) c;
          c = vmcs_writeXX HOST_FS_BASE (read_msr c (X86_MSR_IA32_FS_BASE K)) c;
          c = vmcs_writeXX HOST_GS_BASE (read_msr c (X86_MSR_IA32_GS_BASE K)) c;
          c = vmcs_writeXX HOST_TR_BASE (default_tss_addr L) c;
          c = vmcs_writeXX HOST_GDTR_BASE (gdt_addr L) c;
          c = vmcs_writeXX HOST_IDTR_BASE (idt_readonly_addr L) c;
          c = vmcs_writeXX HOST_IA32_SYSENTER_ESP 0 c;
          c = vmcs_writeXX HOST_IA32_SYSENTER_EIP 0 c;
          c = vmcs_write32 HOST_IA32_SYSENTER_CS 0 c;
          c = vmcs_writeXX HOST_RSP (vmx_state_addr L) c;
          c = vmcs_writeXX HOST_RIP (vmx_exit_entry_addr L) c
      in c)"

text \<open>Fifth part: the guest state area, up to the final \<open>return NO_ERROR\<close>.\<close>

definition Setup_guest_state :: "headers \<Rightarrow> cpu \<Rightarrow> status \<times> cpu" where
  "Setup_guest_state K c =
     (let cr0_value = X86_CR0_PE K OR X86_CR0_PG K OR X86_CR0_NE K in
      if cr_is_invalid c cr0_value (X86_MSR_IA32_VMX_CR0_FIXED0 K) (X86_MSR_IA32_VMX_CR0_FIXED1 K)
      then (ERR_BAD_STATE, c)
      else
      let c = vmcs_writeXX GUEST_CR0 cr0_value c;
          cr4_value = X86_CR4_PAE K OR X86_CR4_VMXE K in
      if cr_is_invalid c cr4_value (X86_MSR_IA32_VMX_CR4_FIXED0 K) (X86_MSR_IA32_VMX_CR4_FIXED1 K)
      then (ERR_BAD_STATE, c)
      else
      let c = vmcs_writeXX GUEST_CR4 cr4_value c;
          c = vmcs_write64 GUEST_IA32_PAT (read_msr c (X86_MSR_IA32_PAT K)) c;
          c = vmcs_write64 GUEST_IA32_EFER (read_msr c (X86_MSR_IA32_EFER K)) c;
          c = vmcs_write32 GUEST_CS_ACCESS_RIGHTS
                (GUEST_XX_ACCESS_RIGHTS_TYPE_A K OR GUEST_XX_ACCESS_RIGHTS_TYPE_W K
                   OR GUEST_XX_ACCESS_RIGHTS_TYPE_E K OR GUEST_XX_ACCESS_RIGHTS_TYPE_CODE K
                   OR GUEST_XX_ACCESS_RIGHTS_S K OR GUEST_XX_ACCESS_RIGHTS_P K
                   OR GUEST_XX_ACCESS_RIGHTS_L K) c;
          c = vmcs_write32 GUEST_TR_ACCESS_RIGHTS
                (GUEST_TR_ACCESS_RIGHTS_TSS_BUSY K OR GUEST_XX_ACCESS_RIGHTS_P K) c;
          c = vmcs_write32 GUEST_SS_ACCESS_RIGHTS (GUEST_XX_ACCESS_RIGHTS_UNUSABLE K) c;
          c = vmcs_write32 GUEST_DS_ACCESS_RIGHTS (GUEST_XX_ACCESS_RIGHTS_UNUSABLE K) c;
          c = vmcs_write32 GUEST_ES_ACCESS_RIGHTS (GUEST_XX_ACCESS_RIGHTS_UNUSABLE K) c;
          c = vmcs_write32 GUEST_FS_ACCESS_RIGHTS (GUEST_XX_ACCESS_RIGHTS_UNUSABLE K) c;
          c = vmcs_write32 GUEST_GS_ACCESS_RIGHTS (GUEST_XX_ACCESS_RIGHTS_UNUSABLE K) c;
          c = vmcs_write32 GUEST_LDTR_ACCESS_RIGHTS (GUEST_XX_ACCESS_RIGHTS_UNUSABLE K) c;
          c = vmcs_writeXX GUEST_GDTR_BASE 0 c;
          c = vmcs_write32 GUEST_GDTR_LIMIT 0 c;
          c = vmcs_writeXX GUEST_IDTR_BASE 0 c;
          c = vmcs_write32 GUEST_IDTR_LIMIT 0 c;
          c = vmcs_writeXX GUEST_RFLAGS (X86_FLAGS_RESERVED_ONES K) c;
          c = vmcs_write32 GUEST_ACTIVITY_STATE 0 c;
          c = vmcs_write32 GUEST_INTERRUPTIBILITY_STATE 0 c;
          c = vmcs_writeXX GUEST_PENDING_DEBUG_EXCEPTIONS 0 c;
          c = vmcs_writeXX GUEST_IA32_SYSENTER_ESP 0 c;
          c = vmcs_writeXX GUEST_IA32_SYSENTER_EIP 0 c;
          c = vmcs_write32 GUEST_IA32_SYSENTER_CS 0 c;
          c = vmcs_writeXX GUEST_RSP 0 c;
          c = vmcs_write64 LINK_POINTER (LINK_POINTER_INVALIDATE K) c
      in (NO_ERROR, c))"

text \<open>
  \<open>VmcsPerCpu::Setup\<close>: \<open>Clear\<close>, then the scope of the VMCS load around the five parts.
  The scope yields the status together with the per-CPU object as the parts left it.
\<close>

definition Setup ::
  "headers \<Rightarrow> kernel_layout \<Rightarrow> 'f hardware \<Rightarrow> u64 \<Rightarrow> cpu \<Rightarrow> VmcsPerCpu
     \<Rightarrow> (status \<times> cpu \<times> VmcsPerCpu) option" where
  "Setup K L hw pml4_address c per_cpu =
     do {
       status \<leftarrow> Clear hw per_cpu;
       if status \<noteq> NO_ERROR then Some (status, c, per_cpu)
       else
         do {
           ((status, per_cpu), c) \<leftarrow>
             AutoVmcsLoad hw (page per_cpu)
               (\<lambda>c. let (status, c) = Setup_controls K c in
                    if status \<noteq> NO_ERROR then Some ((status, per_cpu), c)
                    else
                      do {
                        c \<leftarrow> Setup_execution K pml4_address c;
                        (c, per_cpu) \<leftarrow> Setup_msr_handling K c per_cpu;
                        let c = Setup_host_state K L c;
                        let (status, c) = Setup_guest_state K c;
                        Some ((status, per_cpu), c)
                      }) c;
           Some (status, c, per_cpu)
         }
     }"

section \<open>The exit dispatcher\<close>

definition next_rip :: "ExitInfo \<Rightarrow> cpu \<Rightarrow> cpu" where
  "next_rip exit_information c =
     vmcs_writeXX GUEST_RIP
       (guest_rip exit_information + ucast (instruction_length exit_information)) c"

text \<open>
  \<open>store_u32 r v\<close> is the 64-bit register \<open>r\<close> after a 32-bit store of \<open>v\<close> through
  \<open>(uint32_t*)&r\<close>: on x86-64 the four bytes at the lowest address are the low half.
  \<open>u64_bytes r\<close> are the eight bytes of \<open>r\<close> in memory order, as \<open>(uint8_t*)&r\<close>
  reads them.
\<close>

definition store_u32 :: "u64 \<Rightarrow> u32 \<Rightarrow> u64" where
  "store_u32 r v = (r AND NOT (mask 32)) OR ucast v"

definition u64_bytes :: "u64 \<Rightarrow> u8 list" where
  "u64_bytes r = map (\<lambda>i. ucast (drop_bit (8 * i) r)) [0..<8]"

definition handle_cpuid ::
  "'f hardware \<Rightarrow> ExitInfo \<Rightarrow> cpu \<Rightarrow> GuestState \<Rightarrow> status \<times> cpu \<times> GuestState" where
  "handle_cpuid hw exit_information c gstate =
     (if rax gstate = ucast X86_CPUID_BASE
      then
        let c = next_rip exit_information c;
            (a, b, cx, d) = cpuid hw X86_CPUID_BASE;
            gstate = gstate\<lparr>rax := store_u32 (rax gstate) a\<rparr>;
            gstate = gstate\<lparr>rbx := store_u32 (rbx gstate) b\<rparr>;
            gstate = gstate\<lparr>rcx := store_u32 (rcx gstate) cx\<rparr>;
            gstate = gstate\<lparr>rdx := store_u32 (rdx gstate) d\<rparr>;
            gstate = gstate\<lparr>rax := 0\<rparr>
        in (NO_ERROR, c, gstate)
      else (ERR_NOT_SUPPORTED, c, gstate))"

text \<open>
  \<open>vmexit_handler\<close>; its first parameter, the \<open>VmxState\<close>, is unused in the source. The
  bytes handed to the FIFO start at the address of the guest's \<open>rax\<close>; their number is at
  most 8, the size of \<open>rax\<close>.
\<close>

definition vmexit_handler ::
  "headers \<Rightarrow> 'f hardware \<Rightarrow> cpu \<Rightarrow> GuestState \<Rightarrow> 'f
     \<Rightarrow> (status \<times> cpu \<times> GuestState \<times> 'f) option" where
  "vmexit_handler K hw c gstate serial_fifo =
     (let exit_information = ExitInfo_ctor K c in
      case exit_reason exit_information of
        EXTERNAL_INTERRUPT \<Rightarrow>
          if \<not> arch_ints_disabled c then None
          else
            let c = arch_enable_ints c;
                c = arch_disable_ints c
            in Some (NO_ERROR, c, gstate, serial_fifo)
      | CPUID \<Rightarrow>
          let (status, c, gstate) = handle_cpuid hw exit_information c gstate
          in Some (status, c, gstate, serial_fifo)
      | IO_INSTRUCTION \<Rightarrow>
          let c = next_rip exit_information c in
          if WITH_LIB_MAGENTA K
          then
            let io_info = IoInfo_ctor (exit_qualification exit_information) in
            if input io_info \<or> string io_info \<or> repeat io_info
               \<or> uint (port io_info) \<noteq> kUartIoPort
            then Some (NO_ERROR, c, gstate, serial_fifo)
            else
              let data = u64_bytes (rax gstate);
                  (status, serial_fifo) =
                    fifo_Write hw serial_fifo (take (unat (bytes io_info)) data)
              in Some (status, c, gstate, serial_fifo)
          else Some (NO_ERROR, c, gstate, serial_fifo)
      | WRMSR \<Rightarrow> Some (ERR_NOT_SUPPORTED, c, gstate, serial_fifo)
      | OTHER_EXIT_REASON \<Rightarrow> Some (ERR_NOT_SUPPORTED, c, gstate, serial_fifo))"

section \<open>The guest context and guest entry\<close>

text \<open>
  \<open>VmcsContext\<close>: \<open>gpas_size\<close> is \<open>gpas_->size()\<close>, \<open>ctx_cr3\<close> and \<open>ctx_entry\<close> are the
  members \<open>cr3_\<close> and \<open>entry_\<close>.
\<close>

record VmcsContext =
  gpas_size :: u64
  ctx_cr3 :: u64
  ctx_entry :: u64

definition set_cr3 :: "VmcsContext \<Rightarrow> u64 \<Rightarrow> status \<times> VmcsContext" where
  "set_cr3 context guest_cr3 =
     (if guest_cr3 \<ge> gpas_size context - PAGE_SIZE then (ERR_INVALID_ARGS, context)
      else (NO_ERROR, context\<lparr>ctx_cr3 := guest_cr3\<rparr>))"

definition set_entry :: "VmcsContext \<Rightarrow> u64 \<Rightarrow> status \<times> VmcsContext" where
  "set_entry context guest_entry =
     (if guest_entry \<ge> gpas_size context then (ERR_INVALID_ARGS, context)
      else (NO_ERROR, context\<lparr>ctx_entry := guest_entry\<rparr>))"

text \<open>
  \<open>VmcsPerCpu::Enter\<close> up to the call of the trampoline: the host fields refreshed on every
  entry, and the guest CR3 and RIP of the first launch.
\<close>

definition Enter_prepare ::
  "headers \<Rightarrow> VmcsContext \<Rightarrow> cpu \<Rightarrow> VmcsPerCpu \<Rightarrow> (cpu \<times> VmcsPerCpu) option" where
  "Enter_prepare K context c per_cpu =
     do {
       let c = vmcs_writeXX HOST_FS_BASE (read_msr c (X86_MSR_IA32_FS_BASE K)) c;
       let c = vmcs_writeXX HOST_CR3 (x86_get_cr3 c) c;
       pg \<leftarrow> edit_msr_list (host_msr_page per_cpu) 3 (X86_MSR_IA32_KERNEL_GS_BASE K)
               (read_msr c (X86_MSR_IA32_KERNEL_GS_BASE K));
       let per_cpu = per_cpu\<lparr>host_msr_page := pg\<rparr>;
       let c = (if do_resume per_cpu then c
                else
                  let c = vmcs_writeXX GUEST_CR3 (ctx_cr3 context) c
                  in vmcs_writeXX GUEST_RIP (ctx_entry context) c);
       Some (c, per_cpu)
     }"

text \<open>
  The call \<open>vmx_enter(&vmx_state_, do_resume_)\<close>: the trampoline works on the \<open>VmxState\<close>
  block and on the current VMCS.
\<close>

definition call_vmx_enter ::
  "'f hardware \<Rightarrow> cpu \<Rightarrow> VmcsPerCpu \<Rightarrow> status \<times> cpu \<times> VmcsPerCpu" where
  "call_vmx_enter hw c per_cpu =
     (let (status, vs, vm) = vmx_enter hw (vmx_state per_cpu) (vmcs c) (do_resume per_cpu)
      in (status, c\<lparr>vmcs := vm\<rparr>, per_cpu\<lparr>vmx_state := vs\<rparr>))"

definition Enter ::
  "headers \<Rightarrow> 'f hardware \<Rightarrow> VmcsContext \<Rightarrow> cpu \<Rightarrow> VmcsPerCpu \<Rightarrow> 'f
     \<Rightarrow> (status \<times> cpu \<times> VmcsPerCpu \<times> 'f) option" where
  "Enter K hw context c per_cpu serial_fifo =
     do {
       ((status, per_cpu, serial_fifo), c) \<leftarrow>
         AutoVmcsLoad hw (page per_cpu)
           (\<lambda>c. do {
                  (c, per_cpu) \<leftarrow> Enter_prepare K context c per_cpu;
                  let (status, c, per_cpu) = call_vmx_enter hw c per_cpu;
                  if status \<noteq> NO_ERROR
                  then
                    let error = vmcs_read32 c VM_INSTRUCTION_ERROR
                    in Some ((status, per_cpu, serial_fifo), c)
                  else
                    do {
                      let per_cpu = per_cpu\<lparr>do_resume := True\<rparr>;
                      (status, c, gs, serial_fifo) \<leftarrow>
                        vmexit_handler K hw c (guest_state (vmx_state per_cpu)) serial_fifo;
                      let per_cpu = per_cpu\<lparr>vmx_state := (vmx_state per_cpu)\<lparr>guest_state := gs\<rparr>\<rparr>;
                      Some ((status, per_cpu, serial_fifo), c)
                    }
                }) c;
       Some (status, c, per_cpu, serial_fifo)
     }"

text \<open>
  Each call of \<open>Enter\<close> handles one VM exit; the caller decides whether to call again.
  \<open>Enter_calls\<close> is a caller that makes one call after the other, each with the hardware
  behaviour and the context of its moment, and collects the statuses.
\<close>

fun Enter_calls ::
  "headers \<Rightarrow> ('f hardware \<times> VmcsContext) list \<Rightarrow> cpu \<Rightarrow> VmcsPerCpu \<Rightarrow> 'f
     \<Rightarrow> (status list \<times> cpu \<times> VmcsPerCpu \<times> 'f) option" where
  "Enter_calls K [] c per_cpu serial_fifo = Some ([], c, per_cpu, serial_fifo)"
| "Enter_calls K (call # calls) c per_cpu serial_fifo =
     do {
       (status, c, per_cpu, serial_fifo) \<leftarrow> Enter K (fst call) (snd call) c per_cpu serial_fifo;
       (statuses, c, per_cpu, serial_fifo) \<leftarrow> Enter_calls K calls c per_cpu serial_fifo;
       Some (status # statuses, c, per_cpu, serial_fifo)
     }"

section \<open>Concrete inputs\<close>

text \<open>
  A concrete machine to run the model on: the header constants with the values of the
  Intel SDM, a processor whose capability MSRs allow everything the builder asks for,
  hardware whose instructions succeed, and a serial FIFO that accepts every byte.
\<close>

definition sdm_headers :: headers where
  "sdm_headers =
     \<lparr> WITH_LIB_MAGENTA = True,
       ExitReason_of = (\<lambda>r. if r = 1 then EXTERNAL_INTERRUPT else if r = 10 then CPUID
                           else if r = 30 then IO_INSTRUCTION else if r = 32 then WRMSR
                           else OTHER_EXIT_REASON),
       X86_MSR_IA32_FEATURE_CONTROL = 0x3a,
       X86_MSR_IA32_PAT = 0x277,
       X86_MSR_IA32_VMX_BASIC = 0x480,
       X86_MSR_IA32_VMX_PINBASED_CTLS = 0x481,
       X86_MSR_IA32_VMX_PROCBASED_CTLS = 0x482,
       X86_MSR_IA32_VMX_EXIT_CTLS = 0x483,
       X86_MSR_IA32_VMX_ENTRY_CTLS = 0x484,
       X86_MSR_IA32_VMX_MISC = 0x485,
       X86_MSR_IA32_VMX_CR0_FIXED0 = 0x486,
       X86_MSR_IA32_VMX_CR0_FIXED1 = 0x487,
       X86_MSR_IA32_VMX_CR4_FIXED0 = 0x488,
       X86_MSR_IA32_VMX_CR4_FIXED1 = 0x489,
       X86_MSR_IA32_VMX_PROCBASED_CTLS2 = 0x48b,
       X86_MSR_IA32_VMX_EPT_VPID_CAP = 0x48c,
       X86_MSR_IA32_VMX_TRUE_PINBASED_CTLS = 0x48d,
       X86_MSR_IA32_VMX_TRUE_PROCBASED_CTLS = 0x48e,
       X86_MSR_IA32_VMX_TRUE_EXIT_CTLS = 0x48f,
       X86_MSR_IA32_VMX_TRUE_ENTRY_CTLS = 0x490,
       X86_MSR_IA32_EFER = 0xc0000080,
       X86_MSR_IA32_STAR = 0xc0000081,
       X86_MSR_IA32_LSTAR = 0xc0000082,
       X86_MSR_IA32_FMASK = 0xc0000084,
       X86_MSR_IA32_FS_BASE = 0xc0000100,
       X86_MSR_IA32_GS_BASE = 0xc0000101,
       X86_MSR_IA32_KERNEL_GS_BASE = 0xc0000102,
       X86_MSR_IA32_FEATURE_CONTROL_LOCK = 0x1,
       X86_MSR_IA32_FEATURE_CONTROL_VMXON = 0x4,
       X86_CR0_PE = 0x1,
       X86_CR0_NE = 0x20,
       X86_CR0_PG = 0x80000000,
       X86_CR4_PAE = 0x20,
       X86_CR4_VMXE = 0x2000,
       X86_FLAGS_RESERVED_ONES = 0x2,
       CODE_64_SELECTOR = 0x20,
       DATA_SELECTOR = 0x10,
       TSS_SELECTOR = (\<lambda>n. 0x40 + 16 * ucast n),
       VMX_MEMORY_TYPE_WRITE_BACK = 0x6,
       PINBASED_CTLS_EXTINT_EXITING = 0x1,
       PINBASED_CTLS_NMI_EXITING = 0x8,
       PROCBASED_CTLS_CR3_LOAD_EXITING = 0x8000,
       PROCBASED_CTLS_CR3_STORE_EXITING = 0x10000,
       PROCBASED_CTLS_IO_EXITING = 0x1000000,
       PROCBASED_CTLS_MSR_BITMAPS = 0x10000000,
       PROCBASED_CTLS_PROCBASED_CTLS2 = 0x80000000,
       PROCBASED_CTLS2_EPT = 0x2,
       PROCBASED_CTLS2_RDTSCP = 0x8,
       PROCBASED_CTLS2_VPID = 0x20,
       PROCBASED_CTLS2_XSAVES_XRSTORS = 0x100000,
       EXIT_CTLS_64BIT_MODE = 0x200,
       EXIT_CTLS_SAVE_IA32_PAT = 0x40000,
       EXIT_CTLS_LOAD_IA32_PAT = 0x80000,
       EXIT_CTLS_SAVE_IA32_EFER = 0x100000,
       EXIT_CTLS_LOAD_IA32_EFER = 0x200000,
       ENTRY_CTLS_IA32E_MODE = 0x200,
       ENTRY_CTLS_LOAD_IA32_PAT = 0x4000,
       ENTRY_CTLS_LOAD_IA32_EFER = 0x8000,
       EXCEPTION_BITMAP_ALL_EXCEPTIONS = 0xffffffff,
       LINK_POINTER_INVALIDATE = 0xffffffffffffffff,
       GUEST_XX_ACCESS_RIGHTS_UNUSABLE = 0x10000,
       GUEST_XX_ACCESS_RIGHTS_TYPE_A = 0x1,
       GUEST_XX_ACCESS_RIGHTS_TYPE_W = 0x2,
       GUEST_XX_ACCESS_RIGHTS_TYPE_E = 0x4,
       GUEST_XX_ACCESS_RIGHTS_TYPE_CODE = 0x8,
       GUEST_XX_ACCESS_RIGHTS_S = 0x10,
       GUEST_XX_ACCESS_RIGHTS_P = 0x80,
       GUEST_XX_ACCESS_RIGHTS_L = 0x2000,
       GUEST_TR_ACCESS_RIGHTS_TSS_BUSY = 0xb \<rparr>"

definition example_layout :: kernel_layout where
  "example_layout =
     \<lparr> default_tss_addr = 0xffffffff80010000,
       gdt_addr = 0xffffffff80020000,
       idt_readonly_addr = 0xffffffff80030000,
       vmx_exit_entry_addr = 0xffffffff80100000,
       vmx_state_addr = 0xffffffff80200000 \<rparr>"

text \<open>
  The MSRs of the example processor: VMX basic information with I/O exit information, full
  controls and write-back regions; EPT with page-walk 4, write-back, accessed and dirty
  flags and INVEPT; wait-for-SIPI; \<open>fc\<close> in the feature-control MSR; control MSRs that allow
  every bit and require none.
\<close>

definition example_msrs :: "u64 \<Rightarrow> u32 \<Rightarrow> u64" where
  "example_msrs fc m =
     (if m = 0x480 then 0xda040000000004
      else if m = 0x48c then 0x6334040
      else if m = 0x485 then 0x100
      else if m = 0x3a then fc
      else if m = 0x486 then 0x80000021
      else if m = 0x487 then 0xffffffff
      else if m = 0x488 then 0x2000
      else if m = 0x489 then 0x3767ff
      else if m \<in> {0x481, 0x482, 0x483, 0x484, 0x48b, 0x48d, 0x48e, 0x48f, 0x490}
        then 0xffffffff00000000
      else 0)"

definition example_cpu :: "u64 \<Rightarrow> cpu" where
  "example_cpu fc =
     \<lparr> ints_disabled = False, cpu_num = 0, msrs = example_msrs fc,
       cr0 = 0x80050033, cr3 = 0x1000, cr4 = 0x6f0,
       vmcs = (\<lambda>_. 0), vmptrld_log = [] \<rparr>"

text \<open>
  The example hardware: every VMX instruction succeeds, CPUID answers with the vendor
  string of leaf 0, the guest exits at once with the given exit reason and qualification
  after an instruction of two bytes, and the FIFO appends what it is given.
\<close>

definition example_hw :: "u32 \<Rightarrow> u64 \<Rightarrow> (u8 list) hardware" where
  "example_hw reason qualification =
     \<lparr> vmxon_err = (\<lambda>_. False), vmxoff_err = False,
       vmptrld_err = (\<lambda>_. False), vmclear_err = (\<lambda>_. False),
       cpuid = (\<lambda>_. (0xd, 0x756e6547, 0x6c65746e, 0x49656e69)),
       vmx_enter = (\<lambda>vs vm resume.
          (NO_ERROR, vs,
           vm(F32 EXIT_REASON := ucast reason, FXX EXIT_QUALIFICATION := qualification,
              F32 INSTRUCTION_LENGTH := 2))),
       fifo_Write = (\<lambda>f bs. (NO_ERROR, f @ bs)) \<rparr>"

definition example_vmxon_per_cpu :: VmxonPerCpu where
  "example_vmxon_per_cpu = \<lparr> page = \<lparr> pa = 0x5000, mem = (\<lambda>_. 0) \<rparr>, is_on = False \<rparr>"

definition example_guest_state :: "u64 \<Rightarrow> GuestState" where
  "example_guest_state a =
     \<lparr> rax = a, rbx = 0x1111111122222222, rcx = 0x3333333344444444,
       rdx = 0x5555555566666666 \<rparr>"

definition example_per_cpu :: "u64 \<Rightarrow> VmcsPerCpu" where
  "example_per_cpu a =
     \<lparr> page = \<lparr> pa = 0x6000, mem = (\<lambda>_. 0) \<rparr>,
       msr_bitmaps_page = \<lparr> pa = 0x7000, mem = (\<lambda>_. 0xff) \<rparr>,
       host_msr_page =
         \<lparr> pa = 0x8000,
           mem = (\<lambda>_. \<lparr> entry_msr = 0, entry_reserved = 0, entry_value = 0 \<rparr>) \<rparr>,
       guest_msr_page =
         \<lparr> pa = 0x9000,
           mem = (\<lambda>_. \<lparr> entry_msr = 0, entry_reserved = 0, entry_value = 0 \<rparr>) \<rparr>,
       vmx_state = \<lparr> guest_state = example_guest_state a \<rparr>,
       do_resume = False \<rparr>"

definition example_context :: VmcsContext where
  "example_context = \<lparr> gpas_size = 0x100000, ctx_cr3 = 0x1000, ctx_entry = 0x2000 \<rparr>"

text \<open>
  The example processor right after a VM exit, inside the scope of the VMCS load: the exit
  reason, the qualification, an instruction length of 2 and the guest RIP \<open>0x2000\<close> are in
  the VMCS.
\<close>

definition example_exit_cpu :: "u32 \<Rightarrow> u64 \<Rightarrow> cpu" where
  "example_exit_cpu reason qualification =
     (example_cpu 5)
       \<lparr> ints_disabled := True,
         vmcs := (\<lambda>_. 0)
           (F32 EXIT_REASON := ucast reason, FXX EXIT_QUALIFICATION := qualification,
            F32 INSTRUCTION_LENGTH := 2, FXX GUEST_RIP := 0x2000) \<rparr>"

section \<open>Decoding: the bit-field macros and the I/O qualification\<close>

lemma ucast_BITS_31_0: "(ucast (BITS x 31 0) :: u32) = ucast x"
  unfolding BITS_def by (rule bit_word_eqI) (auto simp: bit_simps)

lemma ucast_BITS_SHIFT_63_32: "(ucast (BITS_SHIFT x 63 32) :: u32) = ucast (drop_bit 32 x)"
  unfolding BITS_SHIFT_def by (rule bit_word_eqI) (auto simp: bit_simps)

lemma ucast_defaults:
  "(ucast ((ucast (u :: u32) :: u64) AND BITS old_msr 31 0) :: u32) = u AND ucast old_msr"
  unfolding BITS_def by (rule bit_word_eqI) (auto simp: bit_simps)

lemma to_bool_BIT_SHIFT: "to_bool (BIT_SHIFT x n) = bit x n"
proof -
  have "drop_bit n x AND 1 = of_bool (bit x n)"
    by (simp add: and_one_eq bit_iff_odd_drop_bit mod2_eq_if)
  then show ?thesis by (simp add: to_bool_def BIT_SHIFT_def)
qed

lemma BITS_2_0: "BITS x 2 0 = x mod 8"
proof -
  have "BITS x 2 0 = take_bit 3 x"
    unfolding BITS_def by (rule bit_word_eqI) (auto simp: bit_simps)
  then show ?thesis by (simp add: take_bit_eq_mod)
qed

lemma unat_bytes: "unat (bytes (IoInfo_ctor q)) = unat q mod 8 + 1"
proof -
  have lt: "unat q mod 8 < 8" by simp
  have a: "unat (q mod 8) = unat q mod 8"
    by (simp add: unat_mod_distrib)
  have "unat (q mod 8 + 1) = (unat q mod 8 + 1) mod 2 ^ 64"
    unfolding unat_word_ariths a by simp
  also have "\<dots> = unat q mod 8 + 1"
    using lt by simp
  finally have b: "unat (q mod 8 + 1) = unat q mod 8 + 1" .
  have "unat (ucast (q mod 8 + 1) :: u8) = (unat q mod 8 + 1) mod 2 ^ 8"
    unfolding unsigned_ucast_eq unsigned_take_bit_eq b take_bit_eq_mod by simp
  also have "\<dots> = unat q mod 8 + 1"
    using lt by simp
  finally show ?thesis by (simp add: IoInfo_ctor_def BITS_2_0)
qed

lemma unat_port: "unat (port (IoInfo_ctor q)) = (unat q div 2 ^ 16) mod 2 ^ 16"
proof -
  have "(ucast (BITS_SHIFT q 31 16) :: u16) = ucast (drop_bit 16 q)"
    unfolding BITS_SHIFT_def by (rule bit_word_eqI) (auto simp: bit_simps)
  then show ?thesis
    by (simp add: IoInfo_ctor_def unsigned_ucast_eq unsigned_take_bit_eq unat_drop_bit_eq
        drop_bit_eq_div take_bit_eq_mod unat_div_distrib)
qed

lemma IoInfo_flags:
  "input (IoInfo_ctor q) = bit q 3" "string (IoInfo_ctor q) = bit q 4"
  "repeat (IoInfo_ctor q) = bit q 5"
  by (simp_all add: IoInfo_ctor_def to_bool_BIT_SHIFT)

text \<open>
  Claim C5, as amended. For every 64-bit exit qualification \<open>q\<close> the decoder yields
  \<open>bytes\<close> = (bits 2:0 of \<open>q\<close>) + 1, a value between 1 and 8 that is at most 4 exactly
  when bits 2:0 are at most 3; \<open>input\<close>, \<open>string\<close> and \<open>repeat\<close> are bits 3, 4 and 5 of
  \<open>q\<close>; \<open>port\<close> is bits 31:16 of \<open>q\<close>.
\<close>

theorem IoInfo_ctor_decodes:
  "unat (bytes (IoInfo_ctor q)) = unat q mod 8 + 1
   \<and> 1 \<le> unat (bytes (IoInfo_ctor q)) \<and> unat (bytes (IoInfo_ctor q)) \<le> 8
   \<and> (unat (bytes (IoInfo_ctor q)) \<le> 4) = (unat q mod 8 \<le> 3)
   \<and> input (IoInfo_ctor q) = bit q 3
   \<and> string (IoInfo_ctor q) = bit q 4
   \<and> repeat (IoInfo_ctor q) = bit q 5
   \<and> unat (port (IoInfo_ctor q)) = (unat q div 2 ^ 16) mod 2 ^ 16"
proof -
  have "unat q mod 8 < 8" by simp
  then show ?thesis
    unfolding unat_bytes IoInfo_flags unat_port by auto
qed

text \<open>
  Claim C5 as stated bounds \<open>bytes\<close> by 4 for every qualification: at \<open>q = 7\<close> the decoder
  yields 8.
\<close>

theorem IoInfo_ctor_bytes_counterexample:
  "bytes (IoInfo_ctor 7) = 8 \<and> \<not> unat (bytes (IoInfo_ctor 7)) \<le> 4"
  by (simp add: IoInfo_ctor_def BITS_def mask_eq_exp_minus_1)

text \<open>The decoder on the qualification of a one-byte \<open>OUT\<close> to port \<open>0x3f8\<close>.\<close>

theorem IoInfo_ctor_decodes_witness:
  "unat (bytes (IoInfo_ctor 0x3f80000)) = 1 \<and> \<not> input (IoInfo_ctor 0x3f80000)
   \<and> unat (port (IoInfo_ctor 0x3f80000)) = 0x3f8"
  using IoInfo_ctor_decodes [of "0x3f80000"] by (simp add: bit_iff_odd_drop_bit drop_bit_eq_div)

section \<open>Properties of the VMCS control helper\<close>

lemma set_vmcs_control_eq:
  "set_vmcs_control controls true_msr old_msr set_m clear_m c =
     (let allowed_0 = (ucast true_msr :: u32);
          allowed_1 = (ucast (drop_bit 32 true_msr) :: u32)
      in if allowed_1 AND set_m \<noteq> set_m then (ERR_NOT_SUPPORTED, c)
         else if NOT allowed_0 AND clear_m \<noteq> clear_m then (ERR_NOT_SUPPORTED, c)
         else if set_m AND clear_m \<noteq> 0 then (ERR_INVALID_ARGS, c)
         else (NO_ERROR, vmcs_write32 controls
                 (allowed_0
                    OR (((allowed_0 XOR allowed_1) AND NOT (set_m OR clear_m)) AND ucast old_msr)
                    OR set_m) c))"
  by (simp only: set_vmcs_control_def Let_def ucast_BITS_31_0 ucast_BITS_SHIFT_63_32
      ucast_defaults)

lemma ctl_bits:
  fixes a0 a1 s cl old :: u32
  assumes h1: "a1 AND s = s" and h2: "NOT a0 AND cl = cl" and h3: "s AND cl = 0"
  defines "w \<equiv> a0 OR (((a0 XOR a1) AND NOT (s OR cl)) AND old) OR s"
  shows "w AND a0 = a0" "w AND s = s" "w AND cl = 0" "w AND NOT (a0 OR a1) = 0"
    "a0 AND NOT a1 = 0 \<Longrightarrow> w AND NOT a1 = 0"
proof -
  have b1: "bit s n \<Longrightarrow> bit a1 n" for n
    using arg_cong [OF h1, of "\<lambda>x. bit x n"] by (simp add: bit_simps)
  have b2: "bit cl n \<Longrightarrow> \<not> bit a0 n" for n
    using arg_cong [OF h2, of "\<lambda>x. bit x n"] by (auto simp: bit_simps)
  have b3: "bit s n \<Longrightarrow> \<not> bit cl n" for n
    using arg_cong [OF h3, of "\<lambda>x. bit x n"] by (simp add: bit_simps)
  show "w AND a0 = a0" unfolding w_def by (rule bit_word_eqI) (auto simp: bit_simps)
  show "w AND s = s" unfolding w_def by (rule bit_word_eqI) (auto simp: bit_simps)
  show "w AND cl = 0" unfolding w_def
    by (rule bit_word_eqI) (use b1 b2 b3 in \<open>auto simp: bit_simps\<close>)
  show "w AND NOT (a0 OR a1) = 0" unfolding w_def
    by (rule bit_word_eqI) (use b1 b2 b3 in \<open>auto simp: bit_simps\<close>)
  show "w AND NOT a1 = 0" if "a0 AND NOT a1 = 0"
  proof -
    have b4: "bit a0 n \<Longrightarrow> bit a1 n" for n
      using arg_cong [OF that, of "\<lambda>x. bit x n"]
      by (auto simp: bit_simps dest: bit_imp_le_length)
    show ?thesis unfolding w_def
      by (rule bit_word_eqI) (use b1 b2 b3 b4 in \<open>auto simp: bit_simps\<close>)
  qed
qed

lemma vmcs_read32_write32 [simp]:
  "vmcs_read32 (vmcs_write32 f v c) f = v"
proof -
  have "(ucast (ucast v :: u64) :: u32) = v"
    by (rule bit_word_eqI) (auto simp: bit_simps)
  then show ?thesis
    by (simp add: vmcs_read32_def vmcs_write32_def vmread_def vmwrite_def)
qed

text \<open>
  Claim C1, as amended. When \<open>set_vmcs_control\<close> returns success, the value \<open>w\<close> written to
  the control field is \<open>allowed_0 | defaults | set\<close>, where \<open>allowed_0\<close> is bits 31:0 and
  \<open>allowed_1\<close> is bits 63:32 of the true MSR and \<open>defaults\<close> are the low 32 bits of the old
  MSR restricted to the flexible bits (\<open>allowed_0 XOR allowed_1\<close>) that are neither in
  \<open>set\<close> nor in \<open>clear\<close>. Every bit of \<open>allowed_0\<close> is set in \<open>w\<close>, every requested set bit
  is 1, every requested clear bit is 0, and every bit outside both \<open>allowed_0\<close> and
  \<open>allowed_1\<close> is clear; when the MSR is consistent (\<open>allowed_0\<close> within \<open>allowed_1\<close>), every
  bit outside \<open>allowed_1\<close> is clear.
\<close>

theorem set_vmcs_control_value:
  assumes "set_vmcs_control controls true_msr old_msr set_m clear_m c = (NO_ERROR, c')"
  shows
    "(let allowed_0 = (ucast true_msr :: u32);
          allowed_1 = (ucast (drop_bit 32 true_msr) :: u32);
          flexible = allowed_0 XOR allowed_1;
          defaults = (flexible AND NOT (set_m OR clear_m)) AND ucast old_msr;
          w = allowed_0 OR defaults OR set_m
      in c' = vmcs_write32 controls w c
         \<and> vmcs_read32 c' controls = w
         \<and> w AND allowed_0 = allowed_0
         \<and> w AND set_m = set_m
         \<and> w AND clear_m = 0
         \<and> w AND NOT (allowed_0 OR allowed_1) = 0
         \<and> (allowed_0 AND NOT allowed_1 = 0 \<longrightarrow> w AND NOT allowed_1 = 0))"
proof -
  define a0 where "a0 = (ucast true_msr :: u32)"
  define a1 where "a1 = (ucast (drop_bit 32 true_msr) :: u32)"
  define w where "w = a0 OR (((a0 XOR a1) AND NOT (set_m OR clear_m)) AND ucast old_msr) OR set_m"
  from assms have h: "a1 AND set_m = set_m" "NOT a0 AND clear_m = clear_m"
    "set_m AND clear_m = 0" and c': "c' = vmcs_write32 controls w c"
    unfolding set_vmcs_control_eq Let_def a0_def a1_def w_def
    by (auto split: if_splits)
  note b = ctl_bits [OF h, of "ucast old_msr", folded w_def]
  show ?thesis
    unfolding Let_def a0_def [symmetric] a1_def [symmetric] w_def [symmetric]
    using b c' by simp
qed

text \<open>
  Claim C1 as stated has every bit outside \<open>allowed_1\<close> clear after every successful call:
  with the true MSR 1 (\<open>allowed_0 = 1\<close>, \<open>allowed_1 = 0\<close>) and empty masks the helper
  succeeds and writes 1.
\<close>

theorem set_vmcs_control_value_counterexample:
  "fst (set_vmcs_control PINBASED_CTLS 1 0 0 0 (example_cpu 0)) = NO_ERROR
   \<and> vmcs_read32 (snd (set_vmcs_control PINBASED_CTLS 1 0 0 0 (example_cpu 0))) PINBASED_CTLS
       AND NOT (ucast (drop_bit 32 (1 :: u64))) = 1"
  by (simp add: set_vmcs_control_eq)

text \<open>
  The primary processor-based controls on a consistent MSR: I/O exiting, MSR bitmaps and
  the secondary controls are set, CR3-load and CR3-store exiting are cleared.
\<close>

theorem set_vmcs_control_value_witness:
  "set_vmcs_control PROCBASED_CTLS 0xfff9fffe04006172 0xfff9fffe0401e172 0x91000000 0x18000
       (example_cpu 0)
     = (NO_ERROR, vmcs_write32 PROCBASED_CTLS 0x95006172 (example_cpu 0))
   \<and> vmcs_read32 (vmcs_write32 PROCBASED_CTLS 0x95006172 (example_cpu 0)) PROCBASED_CTLS
       AND NOT 0xfff9fffe = 0"
proof -
  have h: "set_vmcs_control PROCBASED_CTLS 0xfff9fffe04006172 0xfff9fffe0401e172 0x91000000
             0x18000 (example_cpu 0)
           = (NO_ERROR, vmcs_write32 PROCBASED_CTLS 0x95006172 (example_cpu 0))"
  proof -
    have n: "(0xfff9fffe04006172 :: u32) = 0x04006172" "(0xfff9fffe0401e172 :: u32) = 0x0401e172"
      by simp_all
    show ?thesis
      by (simp add: set_vmcs_control_eq Let_def n)
  qed
  from set_vmcs_control_value [OF h] show ?thesis
    using h by (simp add: Let_def)
qed

lemma not_and_eq_iff: "(NOT a AND b = b) = (a AND b = 0)" for a b :: "'a::len word"
proof
  assume h: "NOT a AND b = b"
  show "a AND b = 0"
  proof (rule bit_word_eqI)
    fix n assume "n < LENGTH('a)"
    from arg_cong [OF h, of "\<lambda>x. bit x n"] \<open>n < LENGTH('a)\<close>
    show "bit (a AND b) n = bit (0 :: 'a word) n"
      by (auto simp: bit_simps)
  qed
next
  assume h: "a AND b = 0"
  show "NOT a AND b = b"
  proof (rule bit_word_eqI)
    fix n assume "n < LENGTH('a)"
    from arg_cong [OF h, of "\<lambda>x. bit x n"] \<open>n < LENGTH('a)\<close>
    show "bit (NOT a AND b) n = bit b n"
      by (auto simp: bit_simps)
  qed
qed

text \<open>
  Claim C6, as amended. When the set mask and the clear mask overlap, \<open>set_vmcs_control\<close>
  fails and leaves the processor state, the control field included, as it was. The status
  is \<open>INVALID_ARGS\<close> when both capability checks pass (every set bit is in \<open>allowed_1\<close>
  and no clear bit is in \<open>allowed_0\<close>); otherwise it is \<open>NOT_SUPPORTED\<close>, because the
  capability checks come first.
\<close>

theorem set_vmcs_control_overlap:
  assumes "set_m AND clear_m \<noteq> 0"
  shows "set_vmcs_control controls true_msr old_msr set_m clear_m c =
           (if ucast (drop_bit 32 true_msr) AND set_m = set_m \<and> ucast true_msr AND clear_m = 0
            then ERR_INVALID_ARGS else ERR_NOT_SUPPORTED, c)"
  using assms by (simp add: set_vmcs_control_eq Let_def not_and_eq_iff)

text \<open>
  Claim C6 as stated returns \<open>INVALID_ARGS\<close> for every overlap: with the true MSR 0 and
  both masks 1 the helper returns \<open>NOT_SUPPORTED\<close>.
\<close>

theorem set_vmcs_control_overlap_counterexample:
  "(1 :: u32) AND 1 \<noteq> 0
   \<and> set_vmcs_control PINBASED_CTLS 0 0 1 1 (example_cpu 0) = (ERR_NOT_SUPPORTED, example_cpu 0)"
  by (simp add: set_vmcs_control_eq)

text \<open>An overlap on a bit the true MSR leaves flexible.\<close>

theorem set_vmcs_control_overlap_witness:
  "(1 :: u32) AND 1 \<noteq> 0
   \<and> set_vmcs_control PINBASED_CTLS 0x100000000 0 1 1 (example_cpu 0)
       = (ERR_INVALID_ARGS, example_cpu 0)"
proof -
  have h: "(1 :: u32) AND 1 \<noteq> 0" by simp
  from set_vmcs_control_overlap [OF h, of PINBASED_CTLS "0x100000000" 0 "example_cpu 0"]
  show ?thesis by (simp add: drop_bit_eq_div)
qed


section \<open>Guest CR3 and entry point\<close>

text \<open>
  Claim C7, as amended. For a guest of at least one page, \<open>set_cr3\<close> returns \<open>INVALID_ARGS\<close>
  exactly for the values \<open>v\<close> with \<open>v \<ge> gpas_size - PAGE_SIZE\<close> and otherwise stores \<open>v\<close>
  and returns success. \<open>set_entry\<close> returns \<open>INVALID_ARGS\<close> exactly for \<open>v \<ge> gpas_size\<close> and
  otherwise stores \<open>v\<close> and returns success. For a guest memory size of at least 1,
  \<open>set_entry\<close> of \<open>gpas_size - 1\<close> returns \<open>NO_ERROR\<close>. Sizes and addresses are read as
  numbers; what \<open>set_cr3\<close> does for a guest smaller than a page is not part of the
  statement.
\<close>

theorem set_cr3_set_entry_bounds:
  "(PAGE_SIZE \<le> gpas_size context \<longrightarrow>
      set_cr3 context v =
        (if unat (gpas_size context) - 4096 \<le> unat v then (ERR_INVALID_ARGS, context)
         else (NO_ERROR, context\<lparr>ctx_cr3 := v\<rparr>))
      \<and> (fst (set_cr3 context v) = NO_ERROR \<longrightarrow> ctx_cr3 (snd (set_cr3 context v)) = v))
   \<and> set_entry context v =
       (if unat (gpas_size context) \<le> unat v then (ERR_INVALID_ARGS, context)
        else (NO_ERROR, context\<lparr>ctx_entry := v\<rparr>))
   \<and> (fst (set_entry context v) = NO_ERROR \<longrightarrow> ctx_entry (snd (set_entry context v)) = v)
   \<and> (gpas_size context \<noteq> 0 \<longrightarrow>
        set_entry context (gpas_size context - 1)
          = (NO_ERROR, context\<lparr>ctx_entry := gpas_size context - 1\<rparr>))"
proof -
  have a: "unat (gpas_size context - PAGE_SIZE) = unat (gpas_size context) - 4096"
    if "PAGE_SIZE \<le> gpas_size context"
    using that by (simp add: PAGE_SIZE_def unat_sub)
  have b: "\<not> gpas_size context \<le> gpas_size context - 1" if "gpas_size context \<noteq> 0"
  proof -
    from that have "unat (gpas_size context) \<noteq> 0"
      by (simp add: unat_eq_zero)
    with that show ?thesis
      by (simp add: word_le_nat_alt unat_minus_one)
  qed
  show ?thesis
    using a b by (auto simp: set_cr3_def set_entry_def word_le_nat_alt)
qed

text \<open>
  Claim C7 as stated fails for an empty guest in both of its parts. \<open>set_entry\<close> of the
  size minus 1, the largest address, is rejected, as every entry point of an empty guest
  must be. \<open>set_cr3\<close> accepts \<open>0x7fffffffffff\<close>, although no CR3 is in range: the bound
  \<open>size - PAGE_SIZE\<close> of the source wraps around below zero.
\<close>

theorem set_cr3_set_entry_counterexample:
  "gpas_size (example_context\<lparr>gpas_size := 0\<rparr>) = 0
   \<and> set_entry (example_context\<lparr>gpas_size := 0\<rparr>) (0 - 1)
       = (ERR_INVALID_ARGS, example_context\<lparr>gpas_size := 0\<rparr>)
   \<and> set_cr3 (example_context\<lparr>gpas_size := 0\<rparr>) 0x7fffffffffff
       = (NO_ERROR, example_context\<lparr>gpas_size := 0, ctx_cr3 := 0x7fffffffffff\<rparr>)"
  by (simp add: set_entry_def set_cr3_def example_context_def PAGE_SIZE_def)

text \<open>The boundaries of a guest of 1 MiB.\<close>

theorem set_cr3_set_entry_bounds_witness:
  "PAGE_SIZE \<le> gpas_size example_context \<and> gpas_size example_context \<noteq> 0
   \<and> set_cr3 example_context 0xff000 = (ERR_INVALID_ARGS, example_context)
   \<and> set_cr3 example_context 0xfefff = (NO_ERROR, example_context\<lparr>ctx_cr3 := 0xfefff\<rparr>)
   \<and> ctx_cr3 (snd (set_cr3 example_context 0xfefff)) = 0xfefff
   \<and> set_entry example_context 0x100000 = (ERR_INVALID_ARGS, example_context)
   \<and> set_entry example_context 0xfffff = (NO_ERROR, example_context\<lparr>ctx_entry := 0xfffff\<rparr>)
   \<and> ctx_entry (snd (set_entry example_context 0xfffff)) = 0xfffff"
  using set_cr3_set_entry_bounds [of example_context "0xff000"]
    set_cr3_set_entry_bounds [of example_context "0xfefff"]
    set_cr3_set_entry_bounds [of example_context "0x100000"]
    set_cr3_set_entry_bounds [of example_context "0xfffff"]
  by (simp add: example_context_def PAGE_SIZE_def)

section \<open>Properties of the exit dispatcher\<close>

lemma store_u32_low: "(ucast (store_u32 r v) :: u32) = v"
  unfolding store_u32_def by (rule bit_word_eqI) (auto simp: bit_simps)

lemma store_u32_high: "drop_bit 32 (store_u32 r v) = drop_bit 32 r"
  unfolding store_u32_def by (rule bit_word_eqI) (auto simp: bit_simps dest: bit_imp_le_length)

lemma next_rip_eq:
  "next_rip (ExitInfo_ctor K c) c =
     vmcs_writeXX GUEST_RIP (vmcs_readXX c GUEST_RIP + ucast (vmcs_read32 c INSTRUCTION_LENGTH)) c"
  by (simp add: next_rip_def ExitInfo_ctor_def)

lemma handle_cpuid_eq:
  "handle_cpuid hw xi c gs =
     (if rax gs = 0
      then (NO_ERROR, next_rip xi c,
            gs\<lparr>rax := 0,
               rbx := store_u32 (rbx gs) (fst (snd (cpuid hw 0))),
               rcx := store_u32 (rcx gs) (fst (snd (snd (cpuid hw 0)))),
               rdx := store_u32 (rdx gs) (snd (snd (snd (cpuid hw 0))))\<rparr>)
      else (ERR_NOT_SUPPORTED, c, gs))"
  by (simp add: handle_cpuid_def X86_CPUID_BASE_def Let_def split: prod.splits)

text \<open>
  Claim C10. On a CPUID exit with guest \<open>rax\<close> equal to 0, the handler leaves \<open>rax\<close> 0 in
  all 64 bits; the low 32 bits of the saved \<open>rbx\<close>, \<open>rcx\<close> and \<open>rdx\<close> are the host's
  CPUID leaf-0 outputs, and their upper 32 bits are the guest's values from before the
  exit.
\<close>

theorem handle_cpuid_frame:
  assumes "rax gs = 0" and "handle_cpuid hw xi c gs = (st, c', gs')"
  shows "rax gs' = 0
    \<and> (ucast (rbx gs') :: u32) = fst (snd (cpuid hw X86_CPUID_BASE))
    \<and> (ucast (rcx gs') :: u32) = fst (snd (snd (cpuid hw X86_CPUID_BASE)))
    \<and> (ucast (rdx gs') :: u32) = snd (snd (snd (cpuid hw X86_CPUID_BASE)))
    \<and> drop_bit 32 (rbx gs') = drop_bit 32 (rbx gs)
    \<and> drop_bit 32 (rcx gs') = drop_bit 32 (rcx gs)
    \<and> drop_bit 32 (rdx gs') = drop_bit 32 (rdx gs)"
  using assms by (auto simp: handle_cpuid_eq X86_CPUID_BASE_def store_u32_low store_u32_high)

text \<open>
  The example guest, whose registers have distinct upper and lower halves, on the example
  hardware.
\<close>

theorem handle_cpuid_frame_witness:
  "rax (example_guest_state 0) = 0
   \<and> snd (snd (handle_cpuid (example_hw 10 0) (ExitInfo_ctor sdm_headers (example_exit_cpu 10 0))
        (example_exit_cpu 10 0) (example_guest_state 0)))
      = \<lparr> rax = 0, rbx = 0x11111111756e6547, rcx = 0x333333336c65746e,
          rdx = 0x5555555549656e69 \<rparr>
   \<and> drop_bit 32 (rbx (snd (snd (handle_cpuid (example_hw 10 0)
        (ExitInfo_ctor sdm_headers (example_exit_cpu 10 0))
        (example_exit_cpu 10 0) (example_guest_state 0))))) = 0x11111111"
proof -
  have h: "rax (example_guest_state 0) = 0" by (simp add: example_guest_state_def)
  obtain st c' gs' where r: "handle_cpuid (example_hw 10 0)
      (ExitInfo_ctor sdm_headers (example_exit_cpu 10 0)) (example_exit_cpu 10 0)
      (example_guest_state 0) = (st, c', gs')"
    by (cases "handle_cpuid (example_hw 10 0)
      (ExitInfo_ctor sdm_headers (example_exit_cpu 10 0)) (example_exit_cpu 10 0)
      (example_guest_state 0)") auto
  have e: "gs' = \<lparr> rax = 0, rbx = 0x11111111756e6547, rcx = 0x333333336c65746e,
          rdx = 0x5555555549656e69 \<rparr>"
    using r by (simp add: handle_cpuid_eq example_guest_state_def example_hw_def store_u32_def
        mask_eq_exp_minus_1)
  from handle_cpuid_frame [OF h r] show ?thesis
    using h r e by (simp add: example_guest_state_def drop_bit_eq_div)
qed

lemma u64_bytes_length: "length (u64_bytes r) = 8"
  by (simp add: u64_bytes_def)

lemma u64_bytes_nth: "i < 8 \<Longrightarrow> u64_bytes r ! i = ucast (drop_bit (8 * i) r)"
  by (simp add: u64_bytes_def)

lemma bytes_le_8: "unat (bytes (IoInfo_ctor q)) \<le> 8"
proof -
  have "unat q mod 8 < 8" by simp
  then show ?thesis unfolding unat_bytes by simp
qed

lemma port_neq_uart: "(uint (port io) \<noteq> kUartIoPort) = (port io \<noteq> 0x3f8)"
proof -
  have "(port io = 0x3f8) = (uint (port io) = uint (0x3f8 :: u16))"
    by (simp only: word_uint_eq_iff)
  then show ?thesis by (simp add: kUartIoPort_def)
qed

text \<open>
  Claim C2, as amended. On a VM exit with reason CPUID: if the guest's \<open>rax\<close> is 0, the
  handler advances the guest RIP to \<open>guest_rip + instruction_length\<close>, stores the host's
  CPUID leaf-0 outputs into the saved guest registers, sets the guest's \<open>rax\<close> to 0 and
  returns success; for any other value of \<open>rax\<close> it returns \<open>NOT_SUPPORTED\<close> and changes
  nothing: the guest RIP is not advanced. In the state \<open>c'\<close> of the first case the guest
  RIP field reads \<open>guest_rip + instruction_length\<close> and every other VMCS field reads as
  before; the low halves of the saved \<open>rbx\<close>, \<open>rcx\<close> and \<open>rdx\<close> read as the host's outputs.
\<close>

theorem vmexit_handler_cpuid:
  assumes "ExitReason_of K (vmcs_read32 c EXIT_REASON) = CPUID"
  shows
    "(let c' = vmcs_writeXX GUEST_RIP
                 (vmcs_readXX c GUEST_RIP + ucast (vmcs_read32 c INSTRUCTION_LENGTH)) c;
          gs' = gs\<lparr>rax := 0,
                   rbx := store_u32 (rbx gs) (fst (snd (cpuid hw 0))),
                   rcx := store_u32 (rcx gs) (fst (snd (snd (cpuid hw 0)))),
                   rdx := store_u32 (rdx gs) (snd (snd (snd (cpuid hw 0))))\<rparr>
      in vmexit_handler K hw c gs f =
           (if rax gs = 0 then Some (NO_ERROR, c', gs', f)
            else Some (ERR_NOT_SUPPORTED, c, gs, f))
         \<and> vmcs_readXX c' GUEST_RIP
             = vmcs_readXX c GUEST_RIP + ucast (vmcs_read32 c INSTRUCTION_LENGTH)
         \<and> (\<forall>g. g \<noteq> FXX GUEST_RIP \<longrightarrow> vmread c' g = vmread c g)
         \<and> rax gs' = 0
         \<and> (ucast (rbx gs') :: u32) = fst (snd (cpuid hw 0))
         \<and> (ucast (rcx gs') :: u32) = fst (snd (snd (cpuid hw 0)))
         \<and> (ucast (rdx gs') :: u32) = snd (snd (snd (cpuid hw 0))))"
proof -
  have "exit_reason (ExitInfo_ctor K c) = CPUID"
    using assms by (simp add: ExitInfo_ctor_def)
  then show ?thesis
    by (simp add: vmexit_handler_def Let_def handle_cpuid_eq next_rip_eq store_u32_low
        vmcs_readXX_def vmcs_writeXX_def vmread_def vmwrite_def)
qed

text \<open>
  Claim C2 as stated advances the guest RIP on every CPUID exit: with guest \<open>rax = 1\<close> the
  handler returns \<open>NOT_SUPPORTED\<close> and the VMCS is as before, the guest RIP still \<open>0x2000\<close>
  and not \<open>0x2002\<close>.
\<close>

theorem vmexit_handler_cpuid_counterexample:
  "ExitReason_of sdm_headers (vmcs_read32 (example_exit_cpu 10 0) EXIT_REASON) = CPUID
   \<and> vmexit_handler sdm_headers (example_hw 10 0) (example_exit_cpu 10 0) (example_guest_state 1) []
       = Some (ERR_NOT_SUPPORTED, example_exit_cpu 10 0, example_guest_state 1, [])
   \<and> vmcs_readXX (example_exit_cpu 10 0) GUEST_RIP = 0x2000
   \<and> vmcs_read32 (example_exit_cpu 10 0) INSTRUCTION_LENGTH = 2"
  by (simp add: vmexit_handler_def ExitInfo_ctor_def handle_cpuid_eq example_exit_cpu_def
      sdm_headers_def vmcs_read32_def vmcs_readXX_def vmread_def example_guest_state_def)

text \<open>CPUID leaf 0 on the example machine: the guest RIP reads \<open>0x2002\<close> afterwards.\<close>

theorem vmexit_handler_cpuid_witness:
  "ExitReason_of sdm_headers (vmcs_read32 (example_exit_cpu 10 0) EXIT_REASON) = CPUID
   \<and> vmexit_handler sdm_headers (example_hw 10 0) (example_exit_cpu 10 0) (example_guest_state 0) []
       = Some (NO_ERROR, vmcs_writeXX GUEST_RIP 0x2002 (example_exit_cpu 10 0),
               \<lparr> rax = 0, rbx = 0x11111111756e6547, rcx = 0x333333336c65746e,
                 rdx = 0x5555555549656e69 \<rparr>, [])
   \<and> vmcs_readXX (vmcs_writeXX GUEST_RIP 0x2002 (example_exit_cpu 10 0)) GUEST_RIP = 0x2002
   \<and> vmcs_readXX (example_exit_cpu 10 0) GUEST_RIP = 0x2000"
proof -
  have h: "ExitReason_of sdm_headers (vmcs_read32 (example_exit_cpu 10 0) EXIT_REASON) = CPUID"
    by (simp add: example_exit_cpu_def sdm_headers_def vmcs_read32_def vmread_def)
  have r: "vmcs_readXX (example_exit_cpu 10 0) GUEST_RIP = 0x2000"
    "vmcs_read32 (example_exit_cpu 10 0) INSTRUCTION_LENGTH = 2"
    by (simp_all add: example_exit_cpu_def vmcs_read32_def vmcs_readXX_def vmread_def)
  from vmexit_handler_cpuid [OF h, where hw = "example_hw 10 0"
      and gs = "example_guest_state 0" and f = "[]"]
  show ?thesis
    using h r by (simp add: Let_def example_guest_state_def example_hw_def store_u32_def
        mask_eq_exp_minus_1)
qed

text \<open>
  Claim C3, as amended. On a VM exit with reason I/O instruction the handler advances the
  guest RIP first: afterwards the guest RIP field reads \<open>guest_rip + instruction_length\<close>
  and every other VMCS field reads as before. In a build with \<open>WITH_LIB_MAGENTA\<close>: if the
  decoded access is an input, a string or a repeated access, or its port is not \<open>0x3f8\<close>,
  the handler returns success and the FIFO is untouched; otherwise it hands the low
  \<open>bytes\<close> bytes of the guest's \<open>rax\<close> to the FIFO and returns the status of that write, with
  the FIFO as the write left it. In a build without \<open>WITH_LIB_MAGENTA\<close> the handler returns
  success and the FIFO is untouched, whatever the access.
\<close>

theorem vmexit_handler_io:
  assumes "ExitReason_of K (vmcs_read32 c EXIT_REASON) = IO_INSTRUCTION"
  shows
    "(let c' = vmcs_writeXX GUEST_RIP
                 (vmcs_readXX c GUEST_RIP + ucast (vmcs_read32 c INSTRUCTION_LENGTH)) c;
          io = IoInfo_ctor (vmcs_readXX c EXIT_QUALIFICATION);
          data = take (unat (bytes io)) (u64_bytes (rax gs))
      in (WITH_LIB_MAGENTA K \<longrightarrow>
            vmexit_handler K hw c gs f =
              (if input io \<or> string io \<or> repeat io \<or> port io \<noteq> 0x3f8
               then Some (NO_ERROR, c', gs, f)
               else Some (fst (fifo_Write hw f data), c', gs, snd (fifo_Write hw f data))))
         \<and> (\<not> WITH_LIB_MAGENTA K \<longrightarrow> vmexit_handler K hw c gs f = Some (NO_ERROR, c', gs, f))
         \<and> vmcs_readXX c' GUEST_RIP
             = vmcs_readXX c GUEST_RIP + ucast (vmcs_read32 c INSTRUCTION_LENGTH)
         \<and> (\<forall>g. g \<noteq> FXX GUEST_RIP \<longrightarrow> vmread c' g = vmread c g)
         \<and> length data = unat (bytes io)
         \<and> data = map (\<lambda>i. ucast (drop_bit (8 * i) (rax gs))) [0..<unat (bytes io)])"
proof -
  have e: "exit_reason (ExitInfo_ctor K c) = IO_INSTRUCTION"
    using assms by (simp add: ExitInfo_ctor_def)
  have q: "exit_qualification (ExitInfo_ctor K c) = vmcs_readXX c EXIT_QUALIFICATION"
    by (simp add: ExitInfo_ctor_def)
  define n where "n = unat (bytes (IoInfo_ctor (vmcs_readXX c EXIT_QUALIFICATION)))"
  have n: "n \<le> 8" unfolding n_def by (rule bytes_le_8)
  have l: "length (take n (u64_bytes (rax gs))) = n"
    using n by (simp add: u64_bytes_length)
  have m: "take n (u64_bytes (rax gs)) = map (\<lambda>i. ucast (drop_bit (8 * i) (rax gs))) [0..<n]"
    using n by (simp add: u64_bytes_def take_map)
  show ?thesis
    unfolding Let_def n_def [symmetric]
    using e q l m
    by (simp add: vmexit_handler_def Let_def next_rip_eq port_neq_uart n_def
        vmcs_readXX_def vmcs_writeXX_def vmread_def vmwrite_def split: prod.splits)
qed

text \<open>
  Claim C3 as stated forwards every output to port \<open>0x3f8\<close>: in a build without
  \<open>WITH_LIB_MAGENTA\<close>, \<open>OUT 0x3f8, AL\<close> with \<open>AL = 0x41\<close> returns success and the FIFO stays
  empty, although the FIFO would have taken the byte.
\<close>

theorem vmexit_handler_io_counterexample:
  "ExitReason_of (sdm_headers\<lparr>WITH_LIB_MAGENTA := False\<rparr>)
       (vmcs_read32 (example_exit_cpu 30 0x3f80000) EXIT_REASON) = IO_INSTRUCTION
   \<and> IoInfo_ctor (vmcs_readXX (example_exit_cpu 30 0x3f80000) EXIT_QUALIFICATION)
       = \<lparr> bytes = 1, input = False, string = False, repeat = False, port = 0x3f8 \<rparr>
   \<and> vmexit_handler (sdm_headers\<lparr>WITH_LIB_MAGENTA := False\<rparr>) (example_hw 30 0x3f80000)
        (example_exit_cpu 30 0x3f80000) (example_guest_state 0x41) []
       = Some (NO_ERROR, vmcs_writeXX GUEST_RIP 0x2002 (example_exit_cpu 30 0x3f80000),
               example_guest_state 0x41, [])
   \<and> fifo_Write (example_hw 30 0x3f80000) [] [0x41] = (NO_ERROR, [0x41])"
proof -
  have r: "vmcs_readXX (example_exit_cpu 30 0x3f80000) GUEST_RIP = 0x2000"
    "vmcs_read32 (example_exit_cpu 30 0x3f80000) INSTRUCTION_LENGTH = 2"
    "vmcs_readXX (example_exit_cpu 30 0x3f80000) EXIT_QUALIFICATION = 0x3f80000"
    "vmcs_read32 (example_exit_cpu 30 0x3f80000) EXIT_REASON = 30"
    by (simp_all add: example_exit_cpu_def vmcs_read32_def vmcs_readXX_def vmread_def)
  have io: "IoInfo_ctor 0x3f80000
      = \<lparr> bytes = 1, input = False, string = False, repeat = False, port = 0x3f8 \<rparr>"
    by (simp add: IoInfo_ctor_def BITS_def BITS_SHIFT_def BIT_SHIFT_def to_bool_def
        mask_eq_exp_minus_1 drop_bit_eq_div)
  show ?thesis
    by (simp add: r io vmexit_handler_def ExitInfo_ctor_def next_rip_def sdm_headers_def
        example_hw_def Let_def)
qed

text \<open>
  \<open>OUT 0x3f8, AL\<close> with \<open>AL = 0x41\<close> on the example machine, in a build with
  \<open>WITH_LIB_MAGENTA\<close> and in one without it; the guest RIP reads \<open>0x2002\<close> afterwards.
\<close>

theorem vmexit_handler_io_witness:
  "ExitReason_of sdm_headers (vmcs_read32 (example_exit_cpu 30 0x3f80000) EXIT_REASON)
     = IO_INSTRUCTION
   \<and> WITH_LIB_MAGENTA sdm_headers
   \<and> vmexit_handler sdm_headers (example_hw 30 0x3f80000) (example_exit_cpu 30 0x3f80000)
        (example_guest_state 0x41) []
       = Some (NO_ERROR, vmcs_writeXX GUEST_RIP 0x2002 (example_exit_cpu 30 0x3f80000),
               example_guest_state 0x41, [0x41])
   \<and> vmcs_readXX (vmcs_writeXX GUEST_RIP 0x2002 (example_exit_cpu 30 0x3f80000)) GUEST_RIP
       = 0x2002
   \<and> vmcs_readXX (example_exit_cpu 30 0x3f80000) GUEST_RIP = 0x2000
   \<and> \<not> WITH_LIB_MAGENTA (sdm_headers\<lparr>WITH_LIB_MAGENTA := False\<rparr>)
   \<and> vmexit_handler (sdm_headers\<lparr>WITH_LIB_MAGENTA := False\<rparr>) (example_hw 30 0x3f80000)
        (example_exit_cpu 30 0x3f80000) (example_guest_state 0x41) []
       = Some (NO_ERROR, vmcs_writeXX GUEST_RIP 0x2002 (example_exit_cpu 30 0x3f80000),
               example_guest_state 0x41, [])"
proof -
  have h: "ExitReason_of sdm_headers (vmcs_read32 (example_exit_cpu 30 0x3f80000) EXIT_REASON)
     = IO_INSTRUCTION"
    by (simp add: example_exit_cpu_def sdm_headers_def vmcs_read32_def vmread_def)
  have h': "ExitReason_of (sdm_headers\<lparr>WITH_LIB_MAGENTA := False\<rparr>)
       (vmcs_read32 (example_exit_cpu 30 0x3f80000) EXIT_REASON) = IO_INSTRUCTION"
    using h by simp
  have w: "WITH_LIB_MAGENTA sdm_headers"
    by (simp add: sdm_headers_def)
  have r: "vmcs_readXX (example_exit_cpu 30 0x3f80000) GUEST_RIP = 0x2000"
    "vmcs_read32 (example_exit_cpu 30 0x3f80000) INSTRUCTION_LENGTH = 2"
    "vmcs_readXX (example_exit_cpu 30 0x3f80000) EXIT_QUALIFICATION = 0x3f80000"
    by (simp_all add: example_exit_cpu_def vmcs_read32_def vmcs_readXX_def vmread_def)
  have io: "IoInfo_ctor 0x3f80000
      = \<lparr> bytes = 1, input = False, string = False, repeat = False, port = 0x3f8 \<rparr>"
    by (simp add: IoInfo_ctor_def BITS_def BITS_SHIFT_def BIT_SHIFT_def to_bool_def
        mask_eq_exp_minus_1 drop_bit_eq_div)
  have d: "take (Suc 0) (u64_bytes (rax (example_guest_state 0x41))) = [0x41]"
    by (simp add: u64_bytes_def example_guest_state_def upt_conv_Cons)
  from vmexit_handler_io [OF h, where hw = "example_hw 30 0x3f80000"
      and gs = "example_guest_state 0x41" and f = "[]"]
    vmexit_handler_io [OF h', where hw = "example_hw 30 0x3f80000"
      and gs = "example_guest_state 0x41" and f = "[]"]
  show ?thesis
    using h w by (simp add: Let_def r io d example_hw_def)
qed

section \<open>Host enablement: the feature-control MSR\<close>

lemma vmx_enable_cr_vmxon_frame:
  assumes "vmx_enable_cr_vmxon K hw c p = Some (st, c', p')"
  shows "msrs c' = msrs c \<and> st \<noteq> ERR_NOT_SUPPORTED
    \<and> (c' = c \<or> c' = c\<lparr>cr4 := cr4 c OR X86_CR4_VMXE K\<rparr>)"
  using assms
  by (auto simp: vmx_enable_cr_vmxon_def Let_def VmxOn_def vmxon_def x86_set_cr4_def
      x86_get_cr4_def PhysicalAddress_def split: if_splits Option.bind_splits)

text \<open>
  Claim C4. Once the capability checks of \<open>vmx_enable\<close> have passed, the feature-control
  MSR \<open>fc\<close> is handled in three cases. Unlocked: the MSR is rewritten with \<open>LOCK\<close> and
  \<open>VMXON\<close> set and bring-up goes on with the control-register checks; whatever it
  returns, the status is not \<open>NOT_SUPPORTED\<close> and the MSR holds the rewritten value.
  Locked with \<open>VMXON\<close> clear: the result is \<open>NOT_SUPPORTED\<close> with the processor state,
  CR4 included, unchanged. Locked with \<open>VMXON\<close> set: bring-up goes on from the unchanged
  state and no MSR is written.
\<close>

theorem vmx_enable_feature_control:
  assumes "io_exit_info (VmxInfo_ctor K c)" and "vmx_controls (VmxInfo_ctor K c)"
    and "page_walk_4 (EptInfo_ctor K c)" and "EptInfo.write_back (EptInfo_ctor K c)"
    and "ept_flags (EptInfo_ctor K c)" and "invept (EptInfo_ctor K c)"
    and "wait_for_sipi (MiscInfo_ctor K c)"
  shows
    "(let fc = read_msr c (X86_MSR_IA32_FEATURE_CONTROL K);
          LOCK = X86_MSR_IA32_FEATURE_CONTROL_LOCK K;
          VMXON = X86_MSR_IA32_FEATURE_CONTROL_VMXON K
      in (fc AND LOCK = 0 \<longrightarrow>
            vmx_enable K hw c p =
              vmx_enable_cr_vmxon K hw
                (write_msr (X86_MSR_IA32_FEATURE_CONTROL K) (fc OR LOCK OR VMXON) c) p
            \<and> (\<forall>st c' p'. vmx_enable K hw c p = Some (st, c', p') \<longrightarrow>
                  st \<noteq> ERR_NOT_SUPPORTED
                  \<and> msrs c' = (msrs c)(X86_MSR_IA32_FEATURE_CONTROL K := fc OR LOCK OR VMXON)))
         \<and> (fc AND LOCK \<noteq> 0 \<and> fc AND VMXON = 0 \<longrightarrow>
              vmx_enable K hw c p = Some (ERR_NOT_SUPPORTED, c, p))
         \<and> (fc AND LOCK \<noteq> 0 \<and> fc AND VMXON \<noteq> 0 \<longrightarrow>
              vmx_enable K hw c p = vmx_enable_cr_vmxon K hw c p
              \<and> (\<forall>st c' p'. vmx_enable K hw c p = Some (st, c', p') \<longrightarrow>
                    st \<noteq> ERR_NOT_SUPPORTED \<and> msrs c' = msrs c)))"
proof -
  define fc where "fc = read_msr c (X86_MSR_IA32_FEATURE_CONTROL K)"
  define LOCK where "LOCK = X86_MSR_IA32_FEATURE_CONTROL_LOCK K"
  define VMXON where "VMXON = X86_MSR_IA32_FEATURE_CONTROL_VMXON K"
  have e: "vmx_enable K hw c p =
     (if fc AND LOCK = 0
      then vmx_enable_cr_vmxon K hw
             (write_msr (X86_MSR_IA32_FEATURE_CONTROL K) (fc OR LOCK OR VMXON) c) p
      else if fc AND VMXON = 0 then Some (ERR_NOT_SUPPORTED, c, p)
      else vmx_enable_cr_vmxon K hw c p)"
    using assms by (simp add: vmx_enable_def Let_def fc_def LOCK_def VMXON_def or.assoc)
  have w: "msrs (write_msr m v c) = (msrs c)(m := v)" for m v
    by (simp add: write_msr_def)
  show ?thesis
    unfolding Let_def fc_def [symmetric] LOCK_def [symmetric] VMXON_def [symmetric]
    using vmx_enable_cr_vmxon_frame [where K = K and hw = hw and p = p] w
    by (auto simp: e)
qed


lemma example_caps:
  "io_exit_info (VmxInfo_ctor sdm_headers (example_cpu fc))"
  "vmx_controls (VmxInfo_ctor sdm_headers (example_cpu fc))"
  "page_walk_4 (EptInfo_ctor sdm_headers (example_cpu fc))"
  "EptInfo.write_back (EptInfo_ctor sdm_headers (example_cpu fc))"
  "ept_flags (EptInfo_ctor sdm_headers (example_cpu fc))"
  "invept (EptInfo_ctor sdm_headers (example_cpu fc))"
  "wait_for_sipi (MiscInfo_ctor sdm_headers (example_cpu fc))"
  by (simp_all add: VmxInfo_ctor_def EptInfo_ctor_def MiscInfo_ctor_def sdm_headers_def
      example_cpu_def example_msrs_def read_msr_def Let_def to_bool_def BIT_SHIFT_def
      drop_bit_eq_div)

lemma example_cr_vmxon:
  "vmx_enable_cr_vmxon sdm_headers (example_hw 0 0) (example_cpu 5) example_vmxon_per_cpu
     = Some (NO_ERROR, (example_cpu 5)\<lparr>cr4 := 0x26f0\<rparr>, example_vmxon_per_cpu\<lparr>is_on := True\<rparr>)"
  by (simp add: vmx_enable_cr_vmxon_def Let_def cr_is_invalid_def sdm_headers_def
      example_cpu_def example_msrs_def read_msr_def x86_get_cr0_def x86_get_cr4_def
      x86_set_cr4_def VmxOn_def vmxon_def PhysicalAddress_def example_vmxon_per_cpu_def
      example_hw_def)

lemma example_write_fc:
  "write_msr (X86_MSR_IA32_FEATURE_CONTROL sdm_headers)
     (read_msr (example_cpu 0) (X86_MSR_IA32_FEATURE_CONTROL sdm_headers)
        OR X86_MSR_IA32_FEATURE_CONTROL_LOCK sdm_headers
        OR X86_MSR_IA32_FEATURE_CONTROL_VMXON sdm_headers)
     (example_cpu 0) = example_cpu 5"
proof -
  have "(example_msrs 0)(0x3a := 5) = example_msrs 5"
    by (auto simp: fun_eq_iff example_msrs_def)
  then show ?thesis
    by (simp add: write_msr_def read_msr_def sdm_headers_def example_cpu_def example_msrs_def)
qed

text \<open>
  The example processor with the feature-control MSR 0 (unlocked), 1 (locked, \<open>VMXON\<close>
  clear) and 5 (locked, \<open>VMXON\<close> set).
\<close>

theorem vmx_enable_feature_control_witness:
  "vmx_enable sdm_headers (example_hw 0 0) (example_cpu 0) example_vmxon_per_cpu
     = Some (NO_ERROR, (example_cpu 5)\<lparr>cr4 := 0x26f0\<rparr>, example_vmxon_per_cpu\<lparr>is_on := True\<rparr>)
   \<and> vmx_enable sdm_headers (example_hw 0 0) (example_cpu 1) example_vmxon_per_cpu
     = Some (ERR_NOT_SUPPORTED, example_cpu 1, example_vmxon_per_cpu)
   \<and> vmx_enable sdm_headers (example_hw 0 0) (example_cpu 5) example_vmxon_per_cpu
     = Some (NO_ERROR, (example_cpu 5)\<lparr>cr4 := 0x26f0\<rparr>, example_vmxon_per_cpu\<lparr>is_on := True\<rparr>)
   \<and> msrs (example_cpu 5) 0x3a = 5 \<and> cr4 (example_cpu 1) = 0x6f0"
proof -
  have fc: "read_msr (example_cpu v) (X86_MSR_IA32_FEATURE_CONTROL sdm_headers) = v" for v
    by (simp add: read_msr_def sdm_headers_def example_cpu_def example_msrs_def)
  have k: "X86_MSR_IA32_FEATURE_CONTROL_LOCK sdm_headers = 1"
    "X86_MSR_IA32_FEATURE_CONTROL_VMXON sdm_headers = 4"
    by (simp_all add: sdm_headers_def)
  note t = vmx_enable_feature_control [OF example_caps, where hw = "example_hw 0 0"
      and p = example_vmxon_per_cpu, unfolded Let_def]
  have a: "vmx_enable sdm_headers (example_hw 0 0) (example_cpu 0) example_vmxon_per_cpu
     = Some (NO_ERROR, (example_cpu 5)\<lparr>cr4 := 0x26f0\<rparr>, example_vmxon_per_cpu\<lparr>is_on := True\<rparr>)"
    using t [of 0] example_write_fc example_cr_vmxon by (simp add: fc k)
  have b: "vmx_enable sdm_headers (example_hw 0 0) (example_cpu 1) example_vmxon_per_cpu
     = Some (ERR_NOT_SUPPORTED, example_cpu 1, example_vmxon_per_cpu)"
    using t [of 1] by (simp add: fc k)
  have c: "vmx_enable sdm_headers (example_hw 0 0) (example_cpu 5) example_vmxon_per_cpu
     = Some (NO_ERROR, (example_cpu 5)\<lparr>cr4 := 0x26f0\<rparr>, example_vmxon_per_cpu\<lparr>is_on := True\<rparr>)"
    using t [of 5] example_cr_vmxon by (simp add: fc k)
  show ?thesis
    using a b c by (simp add: example_cpu_def example_msrs_def)
qed

section \<open>Interrupts and the VMCS load\<close>

lemma vmwrite_proj [simp]:
  "ints_disabled (vmwrite f v c) = ints_disabled c"
  "vmptrld_log (vmwrite f v c) = vmptrld_log c"
  "msrs (vmwrite f v c) = msrs c"
  "cpu_num (vmwrite f v c) = cpu_num c"
  "cr0 (vmwrite f v c) = cr0 c" "cr3 (vmwrite f v c) = cr3 c" "cr4 (vmwrite f v c) = cr4 c"
  by (simp_all add: vmwrite_def)

lemma vmcs_write_proj [simp]:
  "ints_disabled (vmcs_write16 f16 v16 c) = ints_disabled c"
  "ints_disabled (vmcs_write32 f32 v32 c) = ints_disabled c"
  "ints_disabled (vmcs_write64 f64 v64 c) = ints_disabled c"
  "ints_disabled (vmcs_writeXX fxx vxx c) = ints_disabled c"
  "vmptrld_log (vmcs_write16 f16 v16 c) = vmptrld_log c"
  "vmptrld_log (vmcs_write32 f32 v32 c) = vmptrld_log c"
  "vmptrld_log (vmcs_write64 f64 v64 c) = vmptrld_log c"
  "vmptrld_log (vmcs_writeXX fxx vxx c) = vmptrld_log c"
  by (simp_all add: vmcs_write16_def vmcs_write32_def vmcs_write64_def vmcs_writeXX_def)

lemma set_vmcs_control_proj [simp]:
  "ints_disabled (snd (set_vmcs_control f t old s cl c)) = ints_disabled c"
  "vmptrld_log (snd (set_vmcs_control f t old s cl c)) = vmptrld_log c"
  by (simp_all add: set_vmcs_control_def Let_def)

lemma Setup_controls_proj [simp]:
  "ints_disabled (snd (Setup_controls K c)) = ints_disabled c"
  "vmptrld_log (snd (Setup_controls K c)) = vmptrld_log c"
  by (simp_all add: Setup_controls_def Let_def split_beta)

lemma Setup_execution_proj:
  "Setup_execution K a c = Some c' \<Longrightarrow>
     ints_disabled c' = ints_disabled c \<and> vmptrld_log c' = vmptrld_log c"
  by (auto simp: Setup_execution_def Let_def split: Option.bind_splits)

lemma Setup_msr_handling_proj:
  "Setup_msr_handling K c p = Some (c', p') \<Longrightarrow>
     ints_disabled c' = ints_disabled c \<and> vmptrld_log c' = vmptrld_log c"
  by (auto simp: Setup_msr_handling_def Let_def split: Option.bind_splits)

lemma Setup_host_state_proj [simp]:
  "ints_disabled (Setup_host_state K L c) = ints_disabled c"
  "vmptrld_log (Setup_host_state K L c) = vmptrld_log c"
  by (simp_all add: Setup_host_state_def Let_def)

lemma Setup_guest_state_proj [simp]:
  "ints_disabled (snd (Setup_guest_state K c)) = ints_disabled c"
  "vmptrld_log (snd (Setup_guest_state K c)) = vmptrld_log c"
  by (simp_all add: Setup_guest_state_def Let_def)


lemma AutoVmcsLoad_ctor_Some:
  assumes "AutoVmcsLoad_ctor hw pg c = Some c1"
  shows "\<not> ints_disabled c \<and> ints_disabled c1
    \<and> vmptrld_log c1 = vmptrld_log c @ [(pa pg, True)]
    \<and> pa pg \<noteq> 0 \<and> \<not> vmptrld_err hw (pa pg)"
  using assms
  by (auto simp: AutoVmcsLoad_ctor_def arch_ints_disabled_def arch_disable_ints_def
      PhysicalAddress_def vmptrld_def Let_def split: if_splits Option.bind_splits)

lemma AutoVmcsLoad_ctor_eq:
  "AutoVmcsLoad_ctor hw pg c =
     (if \<not> ints_disabled c \<and> pa pg \<noteq> 0 \<and> \<not> vmptrld_err hw (pa pg)
      then Some (c\<lparr>ints_disabled := True, vmptrld_log := vmptrld_log c @ [(pa pg, True)]\<rparr>)
      else None)"
  by (simp add: AutoVmcsLoad_ctor_def arch_ints_disabled_def arch_disable_ints_def
      PhysicalAddress_def vmptrld_def Let_def)

lemma AutoVmcsLoad_dtor_eq:
  "AutoVmcsLoad_dtor c = (if ints_disabled c then Some (c\<lparr>ints_disabled := False\<rparr>) else None)"
  by (simp add: AutoVmcsLoad_dtor_def arch_ints_disabled_def arch_enable_ints_def)

lemma AutoVmcsLoad_Some:
  assumes r: "AutoVmcsLoad hw pg body c = Some (r, c')"
    and body: "\<And>c1 r c2. body c1 = Some (r, c2) \<Longrightarrow>
      ints_disabled c2 = ints_disabled c1 \<and> vmptrld_log c2 = vmptrld_log c1"
  shows "\<not> ints_disabled c \<and> \<not> ints_disabled c'
    \<and> vmptrld_log c' = vmptrld_log c @ [(pa pg, True)]"
proof -
  from r obtain c1 c2 where c1: "AutoVmcsLoad_ctor hw pg c = Some c1"
    and b: "body c1 = Some (r, c2)" and d: "AutoVmcsLoad_dtor c2 = Some c'"
    by (auto simp: AutoVmcsLoad_def split: Option.bind_splits)
  from c1 have 1: "\<not> ints_disabled c" "ints_disabled c1"
    "vmptrld_log c1 = vmptrld_log c @ [(pa pg, True)]"
    by (auto simp: AutoVmcsLoad_ctor_eq split: if_splits)
  from body [OF b] have 2: "ints_disabled c2 = ints_disabled c1"
    "vmptrld_log c2 = vmptrld_log c1" by simp_all
  from d have 3: "\<not> ints_disabled c'" "vmptrld_log c' = vmptrld_log c2"
    by (auto simp: AutoVmcsLoad_dtor_eq split: if_splits)
  from 1 2 3 show ?thesis by simp
qed

lemma AutoVmcsLoad_returns:
  assumes "\<not> ints_disabled c" and "pa pg \<noteq> 0" and "\<not> vmptrld_err hw (pa pg)"
    and body: "\<And>c1. ints_disabled c1 \<Longrightarrow> \<exists>r c2. body c1 = Some (r, c2) \<and> ints_disabled c2"
  shows "\<exists>r c'. AutoVmcsLoad hw pg body c = Some (r, c')"
proof -
  let ?c1 = "c\<lparr>ints_disabled := True, vmptrld_log := vmptrld_log c @ [(pa pg, True)]\<rparr>"
  have c1: "AutoVmcsLoad_ctor hw pg c = Some ?c1"
    using assms(1-3) by (simp add: AutoVmcsLoad_ctor_eq)
  have "ints_disabled ?c1" by simp
  from body [OF this] obtain r c2 where b: "body ?c1 = Some (r, c2)" and i: "ints_disabled c2"
    by blast
  show ?thesis
    using c1 b i by (simp add: AutoVmcsLoad_def AutoVmcsLoad_dtor_eq)
qed

lemma AutoVmcsLoad_ints_disabled:
  "ints_disabled c \<Longrightarrow> AutoVmcsLoad hw pg body c = None"
  by (simp add: AutoVmcsLoad_def AutoVmcsLoad_ctor_eq)

lemma Setup_body_proj:
  assumes "(let (status, c) = Setup_controls K c1 in
              if status \<noteq> NO_ERROR then Some ((status, p), c)
              else
                do {
                  c \<leftarrow> Setup_execution K a c;
                  (c, per_cpu) \<leftarrow> Setup_msr_handling K c p;
                  let c = Setup_host_state K L c;
                  let (status, c) = Setup_guest_state K c;
                  Some ((status, per_cpu), c)
                }) = Some (r, c2)"
  shows "ints_disabled c2 = ints_disabled c1 \<and> vmptrld_log c2 = vmptrld_log c1"
proof (cases "fst (Setup_controls K c1) = NO_ERROR")
  case False
  with assms have "c2 = snd (Setup_controls K c1)"
    by (auto simp: split_beta)
  then show ?thesis by simp
next
  case True
  with assms obtain ca cb pb where
    e: "Setup_execution K a (snd (Setup_controls K c1)) = Some ca"
    and m: "Setup_msr_handling K ca p = Some (cb, pb)"
    and c2: "c2 = snd (Setup_guest_state K (Setup_host_state K L cb))"
    by (auto simp: split_beta Let_def split: Option.bind_splits)
  from Setup_execution_proj [OF e] Setup_msr_handling_proj [OF m] c2
  show ?thesis by simp
qed

lemma vmexit_handler_proj:
  assumes "vmexit_handler K hw c gs f = Some (st, c', gs', f')"
  shows "ints_disabled c' = ints_disabled c \<and> vmptrld_log c' = vmptrld_log c"
  using assms
  by (cases "exit_reason (ExitInfo_ctor K c)")
    (auto simp: vmexit_handler_def Let_def handle_cpuid_eq next_rip_def arch_ints_disabled_def
      arch_enable_ints_def arch_disable_ints_def split: if_splits prod.splits)

lemma vmexit_handler_returns:
  assumes "ints_disabled c"
  shows "\<exists>r. vmexit_handler K hw c gs f = Some r"
  using assms
  by (cases "exit_reason (ExitInfo_ctor K c)")
    (auto simp: vmexit_handler_def Let_def arch_ints_disabled_def split: prod.splits)

lemma edit_msr_list_eq:
  "edit_msr_list pg i m v =
     (if unat i < 32 \<and> pa pg \<noteq> 0
      then Some (pg\<lparr>mem := (mem pg)(unat i := (mem pg (unat i))\<lparr>entry_msr := m, entry_value := v\<rparr>)\<rparr>)
      else None)"
  by (simp add: edit_msr_list_def VirtualAddress_def Let_def)

lemma vmcs_readXX_writeXX [simp]:
  "vmcs_readXX (vmcs_writeXX f v c) g = (if g = f then v else vmcs_readXX c g)"
  by (simp add: vmcs_readXX_def vmcs_writeXX_def vmread_def vmwrite_def)

lemma Enter_prepare_Some:
  assumes "Enter_prepare K ctx c p = Some (c2, p2)"
  shows "ints_disabled c2 = ints_disabled c \<and> vmptrld_log c2 = vmptrld_log c
    \<and> do_resume p2 = do_resume p \<and> page p2 = page p \<and> vmx_state p2 = vmx_state p
    \<and> vmcs_readXX c2 GUEST_CR3 = (if do_resume p then vmcs_readXX c GUEST_CR3 else ctx_cr3 ctx)
    \<and> vmcs_readXX c2 GUEST_RIP = (if do_resume p then vmcs_readXX c GUEST_RIP else ctx_entry ctx)"
  using assms
  by (auto simp: Enter_prepare_def Let_def edit_msr_list_eq split: Option.bind_splits if_splits)

lemma Enter_prepare_returns:
  "pa (host_msr_page p) \<noteq> 0 \<Longrightarrow> \<exists>r. Enter_prepare K ctx c p = Some r"
  by (simp add: Enter_prepare_def Let_def edit_msr_list_eq)

lemma call_vmx_enter_proj [simp]:
  "ints_disabled (fst (snd (call_vmx_enter hw c p))) = ints_disabled c"
  "vmptrld_log (fst (snd (call_vmx_enter hw c p))) = vmptrld_log c"
  "do_resume (snd (snd (call_vmx_enter hw c p))) = do_resume p"
  by (simp_all add: call_vmx_enter_def split_beta)

lemma Enter_body_proj:
  assumes "do {
             (c, per_cpu) \<leftarrow> Enter_prepare K ctx c1 p;
             let (status, c, per_cpu) = call_vmx_enter hw c per_cpu;
             if status \<noteq> NO_ERROR
             then
               let error = vmcs_read32 c VM_INSTRUCTION_ERROR
               in Some ((status, per_cpu, f), c)
             else
               do {
                 let per_cpu = per_cpu\<lparr>do_resume := True\<rparr>;
                 (status, c, gs, serial_fifo) \<leftarrow>
                   vmexit_handler K hw c (guest_state (vmx_state per_cpu)) f;
                 let per_cpu = per_cpu\<lparr>vmx_state := (vmx_state per_cpu)\<lparr>guest_state := gs\<rparr>\<rparr>;
                 Some ((status, per_cpu, serial_fifo), c)
               }
           } = Some ((st, p', f'), c2)"
  shows "ints_disabled c2 = ints_disabled c1 \<and> vmptrld_log c2 = vmptrld_log c1
    \<and> (\<exists>ca pa. Enter_prepare K ctx c1 p = Some (ca, pa)
         \<and> do_resume p' = (do_resume p \<or> fst (call_vmx_enter hw ca pa) = NO_ERROR))
    \<and> (st = NO_ERROR \<longrightarrow> do_resume p')"
proof -
  from assms obtain ca pa where pr: "Enter_prepare K ctx c1 p = Some (ca, pa)"
    by (auto split: Option.bind_splits)
  note P = Enter_prepare_Some [OF pr]
  obtain s cb pb where cv: "call_vmx_enter hw ca pa = (s, cb, pb)"
    by (cases "call_vmx_enter hw ca pa") auto
  have Q: "ints_disabled cb = ints_disabled ca" "vmptrld_log cb = vmptrld_log ca"
    "do_resume pb = do_resume pa"
    using call_vmx_enter_proj [of hw ca pa] by (simp_all add: cv)
  show ?thesis
  proof (cases "s = NO_ERROR")
    case False
    with assms pr cv have "c2 = cb" "p' = pb" "st = s"
      by (auto simp: Let_def)
    with P Q pr cv False show ?thesis by simp
  next
    case True
    with assms pr cv obtain gs where
      h: "vmexit_handler K hw cb (guest_state (vmx_state (pb\<lparr>do_resume := True\<rparr>))) f
            = Some (st, c2, gs, f')"
      and p': "p' = pb\<lparr>do_resume := True, vmx_state := (vmx_state pb)\<lparr>guest_state := gs\<rparr>\<rparr>"
      by (auto simp: Let_def split: Option.bind_splits)
    from vmexit_handler_proj [OF h] P Q pr cv True p' show ?thesis by simp
  qed
qed

lemma Enter_unfold:
  assumes "Enter K hw ctx c p f = Some (st, c', p', f')"
  shows "AutoVmcsLoad hw (page p)
           (\<lambda>c. do {
                  (c, per_cpu) \<leftarrow> Enter_prepare K ctx c p;
                  let (status, c, per_cpu) = call_vmx_enter hw c per_cpu;
                  if status \<noteq> NO_ERROR
                  then
                    let error = vmcs_read32 c VM_INSTRUCTION_ERROR
                    in Some ((status, per_cpu, f), c)
                  else
                    do {
                      let per_cpu = per_cpu\<lparr>do_resume := True\<rparr>;
                      (status, c, gs, serial_fifo) \<leftarrow>
                        vmexit_handler K hw c (guest_state (vmx_state per_cpu)) f;
                      let per_cpu = per_cpu\<lparr>vmx_state := (vmx_state per_cpu)\<lparr>guest_state := gs\<rparr>\<rparr>;
                      Some ((status, per_cpu, serial_fifo), c)
                    }
                }) c = Some ((st, p', f'), c')"
  using assms by (auto simp: Enter_def split: Option.bind_splits)

lemma Enter_Some:
  assumes "Enter K hw ctx c p f = Some (st, c', p', f')"
  shows "\<not> ints_disabled c \<and> \<not> ints_disabled c'
    \<and> vmptrld_log c' = vmptrld_log c @ [(pa (page p), True)]"
proof -
  have body: "ints_disabled c2 = ints_disabled c1 \<and> vmptrld_log c2 = vmptrld_log c1"
    if "do {
             (c, per_cpu) \<leftarrow> Enter_prepare K ctx c1 p;
             let (status, c, per_cpu) = call_vmx_enter hw c per_cpu;
             if status \<noteq> NO_ERROR
             then
               let error = vmcs_read32 c VM_INSTRUCTION_ERROR
               in Some ((status, per_cpu, f), c)
             else
               do {
                 let per_cpu = per_cpu\<lparr>do_resume := True\<rparr>;
                 (status, c, gs, serial_fifo) \<leftarrow>
                   vmexit_handler K hw c (guest_state (vmx_state per_cpu)) f;
                 let per_cpu = per_cpu\<lparr>vmx_state := (vmx_state per_cpu)\<lparr>guest_state := gs\<rparr>\<rparr>;
                 Some ((status, per_cpu, serial_fifo), c)
               }
           } = Some (r, c2)" for c1 r c2
  proof -
    obtain a b d where "r = (a, b, d)" by (cases r) auto
    with that Enter_body_proj [of K ctx c1 p hw f a b d c2] show ?thesis by simp
  qed
  from AutoVmcsLoad_Some [OF Enter_unfold [OF assms] body] show ?thesis by simp
qed

lemma Clear_eq:
  "Clear hw p = Some (if pa (page p) \<noteq> 0 then vmclear hw (pa (page p)) else NO_ERROR)"
  by (simp add: Clear_def IsAllocated_def PhysicalAddress_def)

lemma ignore_msr_returns:
  "pa pg \<noteq> 0 \<Longrightarrow> \<exists>pg'. ignore_msr pg m = Some pg' \<and> pa pg' = pa pg"
  by (simp add: ignore_msr_def VirtualAddress_def Let_def)

lemma Setup_execution_returns:
  "IS_PAGE_ALIGNED a \<Longrightarrow> \<exists>c'. Setup_execution K a c = Some c'"
  by (simp add: Setup_execution_def ept_pointer_def Let_def)

lemma Setup_msr_handling_returns:
  assumes "pa (msr_bitmaps_page p) \<noteq> 0" and "pa (host_msr_page p) \<noteq> 0"
    and "pa (guest_msr_page p) \<noteq> 0"
  shows "\<exists>r. Setup_msr_handling K c p = Some r"
proof -
  from ignore_msr_returns [OF assms(1)] obtain pg1 where
    1: "ignore_msr (msr_bitmaps_page p) (X86_MSR_IA32_GS_BASE K) = Some pg1"
    and a1: "pa pg1 = pa (msr_bitmaps_page p)" by blast
  from a1 assms(1) have "pa pg1 \<noteq> 0" by simp
  from ignore_msr_returns [OF this] obtain pg2 where
    2: "ignore_msr pg1 (X86_MSR_IA32_KERNEL_GS_BASE K) = Some pg2"
    and a2: "pa pg2 = pa pg1" by blast
  from a1 a2 assms(1) have "pa pg2 \<noteq> 0" by simp
  with 1 2 assms(2,3) show ?thesis
    by (simp add: Setup_msr_handling_def Let_def edit_msr_list_eq PhysicalAddress_def)
qed

lemma Setup_body_returns:
  assumes "IS_PAGE_ALIGNED a" and "pa (msr_bitmaps_page p) \<noteq> 0"
    and "pa (host_msr_page p) \<noteq> 0" and "pa (guest_msr_page p) \<noteq> 0"
    and "ints_disabled c1"
  shows "\<exists>r c2. (let (status, c) = Setup_controls K c1 in
              if status \<noteq> NO_ERROR then Some ((status, p), c)
              else
                do {
                  c \<leftarrow> Setup_execution K a c;
                  (c, per_cpu) \<leftarrow> Setup_msr_handling K c p;
                  let c = Setup_host_state K L c;
                  let (status, c) = Setup_guest_state K c;
                  Some ((status, per_cpu), c)
                }) = Some (r, c2) \<and> ints_disabled c2"
proof (cases "fst (Setup_controls K c1) = NO_ERROR")
  case False
  with assms(5) show ?thesis by (simp add: split_beta)
next
  case True
  from Setup_execution_returns [OF assms(1)] obtain ca where
    e: "Setup_execution K a (snd (Setup_controls K c1)) = Some ca" by blast
  from Setup_msr_handling_returns [OF assms(2-4)] obtain cb pb where
    m: "Setup_msr_handling K ca p = Some (cb, pb)" by fastforce
  from Setup_execution_proj [OF e] Setup_msr_handling_proj [OF m] assms(5)
  have "ints_disabled cb" by simp
  with True e m show ?thesis by (simp add: split_beta Let_def)
qed

lemma Setup_returns:
  assumes "\<not> ints_disabled c" and "pa (page p) \<noteq> 0" and "\<not> vmptrld_err hw (pa (page p))"
    and "IS_PAGE_ALIGNED a" and "pa (msr_bitmaps_page p) \<noteq> 0"
    and "pa (host_msr_page p) \<noteq> 0" and "pa (guest_msr_page p) \<noteq> 0"
  shows "\<exists>r. Setup K L hw a c p = Some r"
proof (cases "vmclear hw (pa (page p)) = NO_ERROR")
  case False
  with assms(2) show ?thesis by (simp add: Setup_def Clear_eq)
next
  case True
  have "\<exists>r c'.
     AutoVmcsLoad hw (page p)
       (\<lambda>c. let (status, c) = Setup_controls K c in
            if status \<noteq> NO_ERROR then Some ((status, p), c)
            else
              do {
                c \<leftarrow> Setup_execution K a c;
                (c, per_cpu) \<leftarrow> Setup_msr_handling K c p;
                let c = Setup_host_state K L c;
                let (status, c) = Setup_guest_state K c;
                Some ((status, per_cpu), c)
              }) c = Some (r, c')"
    by (rule AutoVmcsLoad_returns [OF assms(1-3)]) (rule Setup_body_returns [OF assms(4-7)])
  with True assms(2) show ?thesis
    by (auto simp: Setup_def Clear_eq)
qed

lemma Enter_body_returns:
  assumes "pa (host_msr_page p) \<noteq> 0" and "ints_disabled c1"
  shows "\<exists>r c2. do {
             (c, per_cpu) \<leftarrow> Enter_prepare K ctx c1 p;
             let (status, c, per_cpu) = call_vmx_enter hw c per_cpu;
             if status \<noteq> NO_ERROR
             then
               let error = vmcs_read32 c VM_INSTRUCTION_ERROR
               in Some ((status, per_cpu, f), c)
             else
               do {
                 let per_cpu = per_cpu\<lparr>do_resume := True\<rparr>;
                 (status, c, gs, serial_fifo) \<leftarrow>
                   vmexit_handler K hw c (guest_state (vmx_state per_cpu)) f;
                 let per_cpu = per_cpu\<lparr>vmx_state := (vmx_state per_cpu)\<lparr>guest_state := gs\<rparr>\<rparr>;
                 Some ((status, per_cpu, serial_fifo), c)
               }
           } = Some (r, c2) \<and> ints_disabled c2"
proof -
  from Enter_prepare_returns [OF assms(1)] obtain ca pa where
    pr: "Enter_prepare K ctx c1 p = Some (ca, pa)" by fastforce
  note P = Enter_prepare_Some [OF pr]
  obtain s cb pb where cv: "call_vmx_enter hw ca pa = (s, cb, pb)"
    by (cases "call_vmx_enter hw ca pa") auto
  have Q: "ints_disabled cb = ints_disabled ca"
    using call_vmx_enter_proj(1) [of hw ca pa] by (simp add: cv)
  with P assms(2) have i: "ints_disabled cb" by simp
  show ?thesis
  proof (cases "s = NO_ERROR")
    case False
    with pr cv i show ?thesis by (simp add: Let_def)
  next
    case True
    from vmexit_handler_returns [OF i] obtain st c2 gs f' where
      h: "vmexit_handler K hw cb (guest_state (vmx_state (pb\<lparr>do_resume := True\<rparr>))) f
            = Some (st, c2, gs, f')"
      by (metis prod_cases4)
    from vmexit_handler_proj [OF h] i have "ints_disabled c2" by simp
    with True pr cv h show ?thesis by (simp add: Let_def)
  qed
qed

lemma Enter_returns:
  assumes "\<not> ints_disabled c" and "pa (page p) \<noteq> 0" and "\<not> vmptrld_err hw (pa (page p))"
    and "pa (host_msr_page p) \<noteq> 0"
  shows "\<exists>r. Enter K hw ctx c p f = Some r"
proof -
  have "\<exists>r c'.
     AutoVmcsLoad hw (page p)
           (\<lambda>c. do {
                  (c, per_cpu) \<leftarrow> Enter_prepare K ctx c p;
                  let (status, c, per_cpu) = call_vmx_enter hw c per_cpu;
                  if status \<noteq> NO_ERROR
                  then
                    let error = vmcs_read32 c VM_INSTRUCTION_ERROR
                    in Some ((status, per_cpu, f), c)
                  else
                    do {
                      let per_cpu = per_cpu\<lparr>do_resume := True\<rparr>;
                      (status, c, gs, serial_fifo) \<leftarrow>
                        vmexit_handler K hw c (guest_state (vmx_state per_cpu)) f;
                      let per_cpu = per_cpu\<lparr>vmx_state := (vmx_state per_cpu)\<lparr>guest_state := gs\<rparr>\<rparr>;
                      Some ((status, per_cpu, serial_fifo), c)
                    }
                }) c = Some (r, c')"
    by (rule AutoVmcsLoad_returns [OF assms(1-3)]) (rule Enter_body_returns [OF assms(4)])
  then show ?thesis
    by (auto simp: Enter_def)
qed

lemma Setup_log:
  assumes "Setup K L hw a c p = Some (st, c', p')"
  shows "ints_disabled c' = ints_disabled c
    \<and> vmptrld_log c' =
        (if Clear hw p = Some NO_ERROR then vmptrld_log c @ [(pa (page p), True)]
         else vmptrld_log c)
    \<and> (Clear hw p = Some NO_ERROR \<longrightarrow> \<not> ints_disabled c)"
proof -
  from assms obtain s0 where cl: "Clear hw p = Some s0"
    by (auto simp: Setup_def split: Option.bind_splits)
  show ?thesis
  proof (cases "s0 = NO_ERROR")
    case False
    with assms cl show ?thesis by (simp add: Setup_def)
  next
    case True
    with assms cl obtain r where
      "AutoVmcsLoad hw (page p)
         (\<lambda>c. let (status, c) = Setup_controls K c in
              if status \<noteq> NO_ERROR then Some ((status, p), c)
              else
                do {
                  c \<leftarrow> Setup_execution K a c;
                  (c, per_cpu) \<leftarrow> Setup_msr_handling K c p;
                  let c = Setup_host_state K L c;
                  let (status, c) = Setup_guest_state K c;
                  Some ((status, per_cpu), c)
                }) c = Some (r, c')"
      by (auto simp: Setup_def split: Option.bind_splits)
    from AutoVmcsLoad_Some [OF this Setup_body_proj] cl True show ?thesis
      by simp
  qed
qed

lemma Setup_ints_disabled:
  assumes "ints_disabled c" and "Clear hw p = Some NO_ERROR"
  shows "Setup K L hw a c p = None"
  using assms by (simp add: Setup_def AutoVmcsLoad_ints_disabled)

lemma Enter_ints_disabled:
  assumes "ints_disabled c"
  shows "Enter K hw ctx c p f = None"
  using assms by (simp add: Enter_def AutoVmcsLoad_ints_disabled)

text \<open>
  Claim C9. Every VMPTRLD runs with interrupts disabled, and the scope of the VMCS load
  restores the interrupt state. The constructor of the scope returns only when interrupts
  were enabled (it asserts so), leaves them disabled and has executed its VMPTRLD with
  interrupts disabled; the destructor returns only when interrupts are disabled and
  enables them. \<open>Setup\<close> and \<open>Enter\<close>, the two functions that open the scope: when they
  return, interrupts are as they were before the call, enabled if the scope was entered,
  and the one VMPTRLD they executed (none when \<open>Clear\<close> fails in \<open>Setup\<close>) ran with
  interrupts disabled; entered with interrupts disabled, the scope fails its assertion.
\<close>

theorem AutoVmcsLoad_interrupts:
  "(AutoVmcsLoad_ctor hw pg c = Some cl \<longrightarrow>
      \<not> ints_disabled c \<and> ints_disabled cl
      \<and> vmptrld_log cl = vmptrld_log c @ [(pa pg, True)])
   \<and> (ints_disabled c \<longrightarrow> AutoVmcsLoad_ctor hw pg c = None)
   \<and> (AutoVmcsLoad_dtor cl = Some cu \<longrightarrow>
        ints_disabled cl \<and> \<not> ints_disabled cu \<and> vmptrld_log cu = vmptrld_log cl)
   \<and> (Setup K L hw a c p = Some (st, c', p') \<longrightarrow>
        ints_disabled c' = ints_disabled c
        \<and> vmptrld_log c' =
            (if Clear hw p = Some NO_ERROR then vmptrld_log c @ [(pa (page p), True)]
             else vmptrld_log c)
        \<and> (Clear hw p = Some NO_ERROR \<longrightarrow> \<not> ints_disabled c))
   \<and> (ints_disabled c \<and> Clear hw p = Some NO_ERROR \<longrightarrow> Setup K L hw a c p = None)
   \<and> (Enter K hw ctx c p f = Some (st', c'', p'', f') \<longrightarrow>
        \<not> ints_disabled c \<and> \<not> ints_disabled c''
        \<and> vmptrld_log c'' = vmptrld_log c @ [(pa (page p), True)])
   \<and> (ints_disabled c \<longrightarrow> Enter K hw ctx c p f = None)"
proof -
  have 1: "AutoVmcsLoad_ctor hw pg c = Some cl \<longrightarrow>
      \<not> ints_disabled c \<and> ints_disabled cl
      \<and> vmptrld_log cl = vmptrld_log c @ [(pa pg, True)]"
    using AutoVmcsLoad_ctor_Some [of hw pg c cl] by blast
  have 2: "ints_disabled c \<longrightarrow> AutoVmcsLoad_ctor hw pg c = None"
    by (simp add: AutoVmcsLoad_ctor_eq)
  have 3: "AutoVmcsLoad_dtor cl = Some cu \<longrightarrow>
        ints_disabled cl \<and> \<not> ints_disabled cu \<and> vmptrld_log cu = vmptrld_log cl"
    by (auto simp: AutoVmcsLoad_dtor_eq split: if_splits)
  from 1 2 3 Setup_log [of K L hw a c p st c' p'] Setup_ints_disabled [of c hw p K L a]
    Enter_Some [of K hw ctx c p f st' c'' p'' f'] Enter_ints_disabled [of c K hw ctx p f]
  show ?thesis by blast
qed

lemma example_facts:
  "\<not> ints_disabled (example_cpu 5)" "vmptrld_log (example_cpu 5) = []"
  "pa (page (example_per_cpu 0)) = 0x6000"
  "pa (msr_bitmaps_page (example_per_cpu 0)) \<noteq> 0"
  "pa (host_msr_page (example_per_cpu 0)) \<noteq> 0"
  "pa (guest_msr_page (example_per_cpu 0)) \<noteq> 0"
  "\<not> vmptrld_err (example_hw 10 0) x"
  "Clear (example_hw 10 0) (example_per_cpu 0) = Some NO_ERROR"
  "IS_PAGE_ALIGNED 0x10000"
  by (simp_all add: example_cpu_def example_per_cpu_def example_hw_def Clear_eq vmclear_def
      IS_PAGE_ALIGNED_def PAGE_SIZE_def)

text \<open>
  \<open>Setup\<close> and \<open>Enter\<close> on the example machine, entered with interrupts enabled, and
  \<open>Enter\<close> entered with interrupts disabled.
\<close>

theorem AutoVmcsLoad_interrupts_witness:
  "\<not> ints_disabled (example_cpu 5)
   \<and> (case Setup sdm_headers example_layout (example_hw 10 0) 0x10000 (example_cpu 5)
              (example_per_cpu 0) of
         None \<Rightarrow> False
       | Some (st, c', p') \<Rightarrow> \<not> ints_disabled c' \<and> vmptrld_log c' = [(0x6000, True)])
   \<and> (case Enter sdm_headers (example_hw 10 0) example_context (example_cpu 5)
              (example_per_cpu 0) [] of
         None \<Rightarrow> False
       | Some (st, c', p', f') \<Rightarrow> \<not> ints_disabled c' \<and> vmptrld_log c' = [(0x6000, True)])
   \<and> Enter sdm_headers (example_hw 10 0) example_context
        ((example_cpu 5)\<lparr>ints_disabled := True\<rparr>) (example_per_cpu 0) [] = None"
proof -
  have pg: "pa (page (example_per_cpu 0)) \<noteq> 0"
    by (simp add: example_facts)
  from Setup_returns [OF example_facts(1) pg example_facts(7) example_facts(9)
      example_facts(4-6), of sdm_headers example_layout]
  obtain st c' p' where
    s: "Setup sdm_headers example_layout (example_hw 10 0) 0x10000 (example_cpu 5)
          (example_per_cpu 0) = Some (st, c', p')"
    by (metis prod_cases3)
  from Enter_returns [OF example_facts(1) pg example_facts(7) example_facts(5),
      of sdm_headers example_context "[]"]
  obtain st' c'' p'' f' where
    e: "Enter sdm_headers (example_hw 10 0) example_context (example_cpu 5)
          (example_per_cpu 0) [] = Some (st', c'', p'', f')"
    by (metis prod_cases4)
  have d: "ints_disabled ((example_cpu 5)\<lparr>ints_disabled := True\<rparr>)" by simp
  note t1 = AutoVmcsLoad_interrupts [where K = sdm_headers and L = example_layout
      and hw = "example_hw 10 0" and a = "0x10000" and c = "example_cpu 5"
      and p = "example_per_cpu 0" and st = st and c' = c' and p' = p'
      and ctx = example_context and f = "[]" and st' = st' and c'' = c'' and p'' = p''
      and f' = f' and pg = "page (example_per_cpu 0)" and cl = "example_cpu 5"
      and cu = "example_cpu 5"]
  note t2 = AutoVmcsLoad_interrupts [where K = sdm_headers and L = example_layout
      and hw = "example_hw 10 0" and a = "0x10000"
      and c = "(example_cpu 5)\<lparr>ints_disabled := True\<rparr>"
      and p = "example_per_cpu 0" and st = st and c' = c' and p' = p'
      and ctx = example_context and f = "[]" and st' = st' and c'' = c'' and p'' = p''
      and f' = f' and pg = "page (example_per_cpu 0)" and cl = "example_cpu 5"
      and cu = "example_cpu 5"]
  from t1 t2 s e d show ?thesis
    by (simp add: example_facts)
qed

section \<open>The resume flag\<close>

lemma AutoVmcsLoad_body:
  assumes "AutoVmcsLoad hw pg body c = Some (r, c')"
  shows "\<exists>c1 c2. AutoVmcsLoad_ctor hw pg c = Some c1 \<and> body c1 = Some (r, c2)"
  using assms by (auto simp: AutoVmcsLoad_def split: Option.bind_splits)

lemma Enter_prepare_pages:
  assumes "Enter_prepare K ctx c p = Some (c2, p2)"
  shows "pa (host_msr_page p2) = pa (host_msr_page p)"
  using assms
  by (auto simp: Enter_prepare_def Let_def edit_msr_list_eq split: Option.bind_splits if_splits)

lemma call_vmx_enter_pages [simp]:
  "page (snd (snd (call_vmx_enter hw c p))) = page p"
  "host_msr_page (snd (snd (call_vmx_enter hw c p))) = host_msr_page p"
  by (simp_all add: call_vmx_enter_def split_beta)

lemma Enter_step:
  assumes "Enter K hw ctx c p f = Some (st, c', p', f')"
  shows "(\<exists>c1 c2 p2. AutoVmcsLoad_ctor hw (page p) c = Some c1
            \<and> Enter_prepare K ctx c1 p = Some (c2, p2)
            \<and> do_resume p' = (do_resume p \<or> fst (call_vmx_enter hw c2 p2) = NO_ERROR))
    \<and> (st = NO_ERROR \<longrightarrow> do_resume p')"
proof -
  from AutoVmcsLoad_body [OF Enter_unfold [OF assms]] obtain c1 c2 where
    c1: "AutoVmcsLoad_ctor hw (page p) c = Some c1"
    and b: "do {
             (c, per_cpu) \<leftarrow> Enter_prepare K ctx c1 p;
             let (status, c, per_cpu) = call_vmx_enter hw c per_cpu;
             if status \<noteq> NO_ERROR
             then
               let error = vmcs_read32 c VM_INSTRUCTION_ERROR
               in Some ((status, per_cpu, f), c)
             else
               do {
                 let per_cpu = per_cpu\<lparr>do_resume := True\<rparr>;
                 (status, c, gs, serial_fifo) \<leftarrow>
                   vmexit_handler K hw c (guest_state (vmx_state per_cpu)) f;
                 let per_cpu = per_cpu\<lparr>vmx_state := (vmx_state per_cpu)\<lparr>guest_state := gs\<rparr>\<rparr>;
                 Some ((status, per_cpu, serial_fifo), c)
               }
           } = Some ((st, p', f'), c2)"
    by blast
  from Enter_body_proj [OF b] c1 show ?thesis by blast
qed

lemma Enter_pages:
  assumes "Enter K hw ctx c p f = Some (st, c', p', f')"
  shows "page p' = page p \<and> pa (host_msr_page p') = pa (host_msr_page p)"
proof -
  from AutoVmcsLoad_body [OF Enter_unfold [OF assms]] obtain c1 c2 where
    b: "do {
             (c, per_cpu) \<leftarrow> Enter_prepare K ctx c1 p;
             let (status, c, per_cpu) = call_vmx_enter hw c per_cpu;
             if status \<noteq> NO_ERROR
             then
               let error = vmcs_read32 c VM_INSTRUCTION_ERROR
               in Some ((status, per_cpu, f), c)
             else
               do {
                 let per_cpu = per_cpu\<lparr>do_resume := True\<rparr>;
                 (status, c, gs, serial_fifo) \<leftarrow>
                   vmexit_handler K hw c (guest_state (vmx_state per_cpu)) f;
                 let per_cpu = per_cpu\<lparr>vmx_state := (vmx_state per_cpu)\<lparr>guest_state := gs\<rparr>\<rparr>;
                 Some ((status, per_cpu, serial_fifo), c)
               }
           } = Some ((st, p', f'), c2)"
    by blast
  from b obtain ca pa where pr: "Enter_prepare K ctx c1 p = Some (ca, pa)"
    by (auto split: Option.bind_splits)
  note P = Enter_prepare_Some [OF pr] Enter_prepare_pages [OF pr]
  obtain s cb pb where cv: "call_vmx_enter hw ca pa = (s, cb, pb)"
    by (cases "call_vmx_enter hw ca pa") auto
  have Q: "page pb = page pa" "host_msr_page pb = host_msr_page pa"
    using call_vmx_enter_pages [of hw ca pa] by (simp_all add: cv)
  show ?thesis
  proof (cases "s = NO_ERROR")
    case False
    with b pr cv have "p' = pb" by (auto simp: Let_def)
    with P Q show ?thesis by simp
  next
    case True
    with b pr cv obtain gs where
      "p' = pb\<lparr>do_resume := True, vmx_state := (vmx_state pb)\<lparr>guest_state := gs\<rparr>\<rparr>"
      by (auto simp: Let_def split: Option.bind_splits)
    with P Q show ?thesis by simp
  qed
qed

lemma Enter_step_flags:
  assumes "Enter K hw ctx c p f = Some (st, c', p', f')"
  shows "(do_resume p \<longrightarrow> do_resume p') \<and> (st = NO_ERROR \<longrightarrow> do_resume p')
    \<and> ((\<forall>vs vm r. fst (vmx_enter hw vs vm r) \<noteq> NO_ERROR) \<longrightarrow> do_resume p' = do_resume p)"
proof -
  have "fst (call_vmx_enter hw c2 p2) = fst (vmx_enter hw (vmx_state p2) (vmcs c2) (do_resume p2))"
    for c2 p2
    by (simp add: call_vmx_enter_def split_beta)
  with Enter_step [OF assms] show ?thesis by auto
qed

lemma Enter_calls_flags:
  assumes "Enter_calls K calls c p f = Some (sts, cn, pn, fn)"
  shows "(do_resume p \<longrightarrow> do_resume pn) \<and> (NO_ERROR \<in> set sts \<longrightarrow> do_resume pn)
    \<and> ((\<forall>call \<in> set calls. \<forall>vs vm r. fst (vmx_enter (fst call) vs vm r) \<noteq> NO_ERROR)
         \<longrightarrow> do_resume pn = do_resume p)"
  using assms
proof (induction calls arbitrary: c p f sts)
  case Nil
  then show ?case by simp
next
  case (Cons call calls)
  from Cons.prems obtain st c1 p1 f1 sts1 where
    e: "Enter K (fst call) (snd call) c p f = Some (st, c1, p1, f1)"
    and r: "Enter_calls K calls c1 p1 f1 = Some (sts1, cn, pn, fn)"
    and sts: "sts = st # sts1"
    by (auto split: Option.bind_splits)
  from Enter_step_flags [OF e] Cons.IH [OF r] sts show ?case
    by auto
qed

lemma Enter_calls_returns:
  assumes "\<not> ints_disabled c" and "pa (page p) \<noteq> 0" and "pa (host_msr_page p) \<noteq> 0"
    and "\<forall>call \<in> set calls. \<not> vmptrld_err (fst call) (pa (page p))"
  shows "\<exists>r. Enter_calls K calls c p f = Some r"
  using assms
proof (induction calls arbitrary: c p f)
  case Nil
  then show ?case by simp
next
  case (Cons call calls)
  from Cons.prems have v: "\<not> vmptrld_err (fst call) (pa (page p))" by simp
  from Enter_returns [OF Cons.prems(1,2) v Cons.prems(3)] obtain st c1 p1 f1 where
    e: "Enter K (fst call) (snd call) c p f = Some (st, c1, p1, f1)"
    by (metis prod_cases4)
  from Enter_Some [OF e] have i: "\<not> ints_disabled c1" by simp
  from Enter_pages [OF e] Cons.prems have
    pg: "pa (page p1) \<noteq> 0" "pa (host_msr_page p1) \<noteq> 0"
    "\<forall>call \<in> set calls. \<not> vmptrld_err (fst call) (pa (page p1))"
    by simp_all
  from Cons.IH [OF i pg] obtain r where "Enter_calls K calls c1 p1 f1 = Some r" by blast
  with e show ?case by (cases r) simp
qed

text \<open>
  Claim C8. A call of \<open>Enter\<close> that returns leaves \<open>do_resume\<close> true exactly when it was true
  before or the trampoline's VM entry of this call succeeded; so a returned success implies
  \<open>do_resume\<close> (after any \<open>Enter\<close>, \<open>do_resume\<close> is true or the status is a failure), and a
  true flag stays true. Before the trampoline is called, the guest CR3 and RIP in the VMCS
  are the context's when \<open>do_resume\<close> is false and are left as they were when it is true.
  Over any sequence of calls: a true flag stays true, a success among the statuses makes
  it true, and while every VM entry fails it keeps its value, false from construction.
\<close>

theorem Enter_do_resume:
  "(Enter K hw ctx c p f = Some (st, c', p', f') \<longrightarrow>
      (\<exists>c1 c2 p2. AutoVmcsLoad_ctor hw (page p) c = Some c1
          \<and> Enter_prepare K ctx c1 p = Some (c2, p2)
          \<and> do_resume p' =
              (do_resume p
               \<or> fst (vmx_enter hw (vmx_state p2) (vmcs c2) (do_resume p2)) = NO_ERROR))
      \<and> (st = NO_ERROR \<longrightarrow> do_resume p')
      \<and> (do_resume p' \<or> st \<noteq> NO_ERROR)
      \<and> (do_resume p \<longrightarrow> do_resume p'))
   \<and> (Enter_prepare K ctx ca p = Some (cb, pb) \<longrightarrow>
        do_resume pb = do_resume p
        \<and> vmcs_readXX cb GUEST_CR3
            = (if do_resume p then vmcs_readXX ca GUEST_CR3 else ctx_cr3 ctx)
        \<and> vmcs_readXX cb GUEST_RIP
            = (if do_resume p then vmcs_readXX ca GUEST_RIP else ctx_entry ctx))
   \<and> (Enter_calls K calls c p f = Some (sts, cn, pn, fn) \<longrightarrow>
        (do_resume p \<longrightarrow> do_resume pn)
        \<and> (NO_ERROR \<in> set sts \<longrightarrow> do_resume pn)
        \<and> ((\<forall>call \<in> set calls. \<forall>vs vm r. fst (vmx_enter (fst call) vs vm r) \<noteq> NO_ERROR)
             \<longrightarrow> do_resume pn = do_resume p))"
proof -
  have v: "fst (call_vmx_enter hw c2 p2)
      = fst (vmx_enter hw (vmx_state p2) (vmcs c2) (do_resume p2))" for c2 p2
    by (simp add: call_vmx_enter_def split_beta)
  have 1: "Enter K hw ctx c p f = Some (st, c', p', f') \<longrightarrow>
      (\<exists>c1 c2 p2. AutoVmcsLoad_ctor hw (page p) c = Some c1
          \<and> Enter_prepare K ctx c1 p = Some (c2, p2)
          \<and> do_resume p' =
              (do_resume p
               \<or> fst (vmx_enter hw (vmx_state p2) (vmcs c2) (do_resume p2)) = NO_ERROR))
      \<and> (st = NO_ERROR \<longrightarrow> do_resume p')
      \<and> (do_resume p' \<or> st \<noteq> NO_ERROR)
      \<and> (do_resume p \<longrightarrow> do_resume p')"
    using Enter_step [of K hw ctx c p f st c' p' f'] Enter_step_flags [of K hw ctx c p f st c' p' f']
    unfolding v by blast
  have 2: "Enter_prepare K ctx ca p = Some (cb, pb) \<longrightarrow>
        do_resume pb = do_resume p
        \<and> vmcs_readXX cb GUEST_CR3
            = (if do_resume p then vmcs_readXX ca GUEST_CR3 else ctx_cr3 ctx)
        \<and> vmcs_readXX cb GUEST_RIP
            = (if do_resume p then vmcs_readXX ca GUEST_RIP else ctx_entry ctx)"
    using Enter_prepare_Some [of K ctx ca p cb pb] by blast
  from 1 2 Enter_calls_flags [of K calls c p f sts cn pn fn] show ?thesis
    by blast
qed

text \<open>
  The example machine, whose per-CPU object starts with \<open>do_resume\<close> false: one entry that
  succeeds, the VMCS as the first launch programs it, and two entries that fail.
\<close>

theorem Enter_do_resume_witness:
  "\<not> do_resume (example_per_cpu 0)
   \<and> (case Enter sdm_headers (example_hw 10 0) example_context (example_cpu 5)
              (example_per_cpu 0) [] of
         None \<Rightarrow> False
       | Some (st, c', p', f') \<Rightarrow> do_resume p')
   \<and> (case Enter_prepare sdm_headers example_context (example_cpu 5) (example_per_cpu 0) of
         None \<Rightarrow> False
       | Some (cb, pb) \<Rightarrow>
           \<not> do_resume pb \<and> vmcs_readXX cb GUEST_CR3 = 0x1000
           \<and> vmcs_readXX cb GUEST_RIP = 0x2000)
   \<and> (case Enter_calls sdm_headers
              [((example_hw 10 0)\<lparr>vmx_enter := (\<lambda>vs vm r. (ERR_INTERNAL, vs, vm))\<rparr>,
                example_context),
               ((example_hw 10 0)\<lparr>vmx_enter := (\<lambda>vs vm r. (ERR_INTERNAL, vs, vm))\<rparr>,
                example_context)]
              (example_cpu 5) (example_per_cpu 0) [] of
         None \<Rightarrow> False
       | Some (sts, cn, pn, fn) \<Rightarrow> \<not> do_resume pn)"
proof -
  let ?K = sdm_headers and ?hw = "example_hw 10 0" and ?ctx = example_context
    and ?c = "example_cpu 5" and ?p = "example_per_cpu 0"
  let ?bad = "(example_hw 10 0)\<lparr>vmx_enter := (\<lambda>vs vm r. (ERR_INTERNAL, vs, vm))\<rparr>"
  let ?calls = "[(?bad, ?ctx), (?bad, ?ctx)]"
  have n: "\<not> do_resume ?p" by (simp add: example_per_cpu_def)
  have pg: "pa (page ?p) \<noteq> 0" by (simp add: example_facts)
  from Enter_returns [OF example_facts(1) pg example_facts(7) example_facts(5),
      of ?K ?ctx "[]"]
  obtain st c' p' f' where
    e: "Enter ?K ?hw ?ctx ?c ?p [] = Some (st, c', p', f')"
    by (metis prod_cases4)
  from Enter_prepare_returns [OF example_facts(5), of ?K ?ctx ?c]
  obtain cb pb where pr: "Enter_prepare ?K ?ctx ?c ?p = Some (cb, pb)"
    by fastforce
  have v: "\<forall>call \<in> set ?calls. \<not> vmptrld_err (fst call) (pa (page ?p))"
    by (simp add: example_hw_def)
  from Enter_calls_returns [OF example_facts(1) pg example_facts(5) v, of ?K "[]"]
  obtain sts cn pn fn where
    r: "Enter_calls ?K ?calls ?c ?p [] = Some (sts, cn, pn, fn)"
    by (metis prod_cases4)
  have ok: "fst (vmx_enter ?hw vs vm rs) = NO_ERROR" for vs vm rs
    by (simp add: example_hw_def)
  have bad: "\<forall>call \<in> set ?calls. \<forall>vs vm r. fst (vmx_enter (fst call) vs vm r) \<noteq> NO_ERROR"
    by simp
  have ctx: "ctx_cr3 ?ctx = 0x1000" "ctx_entry ?ctx = 0x2000"
    by (simp_all add: example_context_def)
  note t = Enter_do_resume [where K = ?K and hw = ?hw and ctx = ?ctx and c = ?c and p = ?p
      and f = "[]" and st = st and c' = c' and p' = p' and f' = f' and ca = ?c and cb = cb
      and pb = pb and calls = ?calls and sts = sts and cn = cn and pn = pn and fn = fn]
  have 1: "do_resume p'"
    using t e ok by auto
  have 2: "\<not> do_resume pb \<and> vmcs_readXX cb GUEST_CR3 = 0x1000
           \<and> vmcs_readXX cb GUEST_RIP = 0x2000"
    using t pr n ctx by simp
  have 3: "\<not> do_resume pn"
    using t r bad n by blast
  from n e pr r 1 2 3 show ?thesis by simp
qed

end
